theory Spec2Isabelle
  imports Main "HOL-Library.Word"
begin

unbundle bit_operations_syntax

section \<open>Common types\<close>

type_synonym u8 = "8 word"
type_synonym u32 = "32 word"
type_synonym u64 = "64 word"

text \<open>
  The driver reports failure as a negative errno value and success as 0 (or, for the
  register allocator, as the non-negative register index). The model keeps the errno
  as a constructor and the success value on the right of a sum.
  The specification's error kinds are names for these codes at each call site:
  InvalidConfig, InvalidOperand, IllegalVtype and DecodeError are \<open>-EINVAL\<close>,
  RangeError is \<open>-ERANGE\<close>, NoCapacity is \<open>-ENOSPC\<close>, DeviceUnavailable is
  \<open>-ENODEV\<close>, OutOfMemory is \<open>-ENOMEM\<close>, HardwareError is \<open>-EIO\<close> and Timeout is
  \<open>-ETIMEDOUT\<close>.
\<close>

datatype errno = EINVAL | ERANGE | ENOSPC | ENODEV | ENOMEM | EIO | ETIMEDOUT

definition FDCA_RVV_NUM_VREGS :: nat where
  "FDCA_RVV_NUM_VREGS = 32"

section \<open>Capability configuration (fdca\_drv.h, fdca\_rvv\_config.c)\<close>

record fdca_rvv_config =
  vlen :: u32
  elen :: u32
  num_lanes :: u32
  vlenb :: u32
  fp_support :: bool
  fixed_point_support :: bool
  segment_support :: bool
  os_support :: bool
  multiplier_latency :: "u32 list"
  fpu_latency :: "u32 list"
  vrf_size_per_lane :: u32
  vrf_banks_per_lane :: u32

text \<open>
  \<open>fdca_rvv_config_validate\<close> receives the device and works on a pointer to its
  \<open>rvv_config\<close>. The model passes the configuration in and returns it next to the
  return code, so that what the function leaves behind is part of its result.
\<close>

definition fdca_rvv_config_validate ::
  "fdca_rvv_config \<Rightarrow> (errno + unit) \<times> fdca_rvv_config" where
  "fdca_rvv_config_validate config =
     (if vlen config < 128 \<or> vlen config > 65536 then (Inl EINVAL, config)
      else if elen config > 64 then (Inl EINVAL, config)
      else if num_lanes config = 0 \<or> num_lanes config > 16 then (Inl EINVAL, config)
      else (Inr (), config))"

section \<open>Instruction decoding (fdca\_rvv\_instr.h, fdca\_rvv\_instr.c)\<close>

datatype fdca_rvv_instr_type =
    FDCA_RVV_INSTR_VMEM
  | FDCA_RVV_INSTR_VAMO
  | FDCA_RVV_INSTR_VARITH
  | FDCA_RVV_INSTR_VSETVLI
  | FDCA_RVV_INSTR_INVALID

datatype fdca_vmem_type =
    FDCA_VMEM_UNIT_STRIDE
  | FDCA_VMEM_STRIDED
  | FDCA_VMEM_INDEXED
  | FDCA_VMEM_SEGMENT
  | FDCA_VMEM_WHOLE_REG

datatype fdca_varith_type =
    FDCA_VARITH_ADD
  | FDCA_VARITH_SUB
  | FDCA_VARITH_MUL
  | FDCA_VARITH_DIV
  | FDCA_VARITH_AND
  | FDCA_VARITH_OR
  | FDCA_VARITH_XOR
  | FDCA_VARITH_SHIFT
  | FDCA_VARITH_CMP
  | FDCA_VARITH_REDUCE

text \<open>The integer value of each enumerator, in declaration order.\<close>

fun fdca_vmem_type_val :: "fdca_vmem_type \<Rightarrow> nat" where
  "fdca_vmem_type_val FDCA_VMEM_UNIT_STRIDE = 0"
| "fdca_vmem_type_val FDCA_VMEM_STRIDED = 1"
| "fdca_vmem_type_val FDCA_VMEM_INDEXED = 2"
| "fdca_vmem_type_val FDCA_VMEM_SEGMENT = 3"
| "fdca_vmem_type_val FDCA_VMEM_WHOLE_REG = 4"

fun fdca_varith_type_val :: "fdca_varith_type \<Rightarrow> nat" where
  "fdca_varith_type_val FDCA_VARITH_ADD = 0"
| "fdca_varith_type_val FDCA_VARITH_SUB = 1"
| "fdca_varith_type_val FDCA_VARITH_MUL = 2"
| "fdca_varith_type_val FDCA_VARITH_DIV = 3"
| "fdca_varith_type_val FDCA_VARITH_AND = 4"
| "fdca_varith_type_val FDCA_VARITH_OR = 5"
| "fdca_varith_type_val FDCA_VARITH_XOR = 6"
| "fdca_varith_type_val FDCA_VARITH_SHIFT = 7"
| "fdca_varith_type_val FDCA_VARITH_CMP = 8"
| "fdca_varith_type_val FDCA_VARITH_REDUCE = 9"

text \<open>
  \<open>struct fdca_rvv_instr\<close>. Its two anonymous unions are one field each:
  \<open>type_union\<close> is the storage shared by \<open>vmem_type\<close> and \<open>varith_type\<close> (it holds
  the enumerator's integer value), \<open>imm_union\<close> the storage shared by \<open>imm\<close>,
  \<open>stride\<close> and \<open>vl_setting\<close>.
\<close>

record fdca_rvv_instr =
  opcode :: u32
  type :: fdca_rvv_instr_type
  type_union :: nat
  vd :: u8
  vs1 :: u8
  vs2 :: u8
  vm :: bool
  imm_union :: u32
  uses_mask :: bool
  modifies_vl :: bool
  memory_access :: bool
  latency :: u32

abbreviation vmem_type :: "fdca_rvv_instr \<Rightarrow> nat" where
  "vmem_type instr \<equiv> type_union instr"

abbreviation varith_type :: "fdca_rvv_instr \<Rightarrow> nat" where
  "varith_type instr \<equiv> type_union instr"

abbreviation vl_setting :: "fdca_rvv_instr \<Rightarrow> u32" where
  "vl_setting instr \<equiv> imm_union instr"

definition RVV_OPCODE_MASK :: u32 where "RVV_OPCODE_MASK = 0x7F"
definition RVV_LOAD_FP :: u32 where "RVV_LOAD_FP = 0x07"
definition RVV_STORE_FP :: u32 where "RVV_STORE_FP = 0x27"
definition RVV_MADD :: u32 where "RVV_MADD = 0x43"
definition RVV_ARITH :: u32 where "RVV_ARITH = 0x57"

definition EXTRACT_FUNCT3 :: "u32 \<Rightarrow> u32" where
  "EXTRACT_FUNCT3 opc = drop_bit 12 opc AND 0x7"

definition EXTRACT_FUNCT6 :: "u32 \<Rightarrow> u32" where
  "EXTRACT_FUNCT6 opc = drop_bit 26 opc AND 0x3F"

definition EXTRACT_VD :: "u32 \<Rightarrow> u32" where
  "EXTRACT_VD opc = drop_bit 7 opc AND 0x1F"

definition EXTRACT_VS1 :: "u32 \<Rightarrow> u32" where
  "EXTRACT_VS1 opc = drop_bit 15 opc AND 0x1F"

definition EXTRACT_VS2 :: "u32 \<Rightarrow> u32" where
  "EXTRACT_VS2 opc = drop_bit 20 opc AND 0x1F"

definition EXTRACT_VM :: "u32 \<Rightarrow> u32" where
  "EXTRACT_VM opc = drop_bit 25 opc AND 0x1"

definition fdca_rvv_decode_instr_type :: "u32 \<Rightarrow> fdca_rvv_instr_type" where
  "fdca_rvv_decode_instr_type opc =
     (let base_opcode = opc AND RVV_OPCODE_MASK;
          funct3 = EXTRACT_FUNCT3 opc
      in if base_opcode = RVV_LOAD_FP \<or> base_opcode = RVV_STORE_FP then FDCA_RVV_INSTR_VMEM
         else if base_opcode = RVV_ARITH then
           (if funct3 = 0x0 \<or> funct3 = 0x1 \<or> funct3 = 0x2 \<or> funct3 = 0x3 \<or>
               funct3 = 0x4 \<or> funct3 = 0x5 \<or> funct3 = 0x6 then FDCA_RVV_INSTR_VARITH
            else if funct3 = 0x7 then FDCA_RVV_INSTR_VSETVLI
            else FDCA_RVV_INSTR_INVALID)
         else if base_opcode = RVV_MADD then FDCA_RVV_INSTR_VARITH
         else FDCA_RVV_INSTR_INVALID)"

definition fdca_rvv_decode_vmem_type :: "u32 \<Rightarrow> fdca_vmem_type" where
  "fdca_rvv_decode_vmem_type opc =
     (let funct3 = EXTRACT_FUNCT3 opc
      in if funct3 = 0x0 then FDCA_VMEM_UNIT_STRIDE
         else if funct3 = 0x2 then FDCA_VMEM_STRIDED
         else if funct3 = 0x3 then FDCA_VMEM_INDEXED
         else if funct3 = 0x1 then FDCA_VMEM_SEGMENT
         else if funct3 = 0x4 then FDCA_VMEM_WHOLE_REG
         else FDCA_VMEM_UNIT_STRIDE)"

text \<open>
  The source's switch carries the label \<open>case 0x00\<close> twice (vadd, and again for
  vredsum before the default), which a C compiler refuses; the source fixes no behaviour
  for \<open>funct6 = 0\<close>. Taking the labels in source order, so that the first one decides
  and the reduce branch is never reached, is a choice of this model. No statement below
  depends on the arithmetic kind that is decoded.
\<close>

definition fdca_rvv_decode_varith_type :: "u32 \<Rightarrow> fdca_varith_type" where
  "fdca_rvv_decode_varith_type opc =
     (let funct6 = EXTRACT_FUNCT6 opc
      in if funct6 = 0x00 then FDCA_VARITH_ADD
         else if funct6 = 0x02 then FDCA_VARITH_SUB
         else if funct6 = 0x25 then FDCA_VARITH_MUL
         else if funct6 = 0x20 then FDCA_VARITH_DIV
         else if funct6 = 0x24 then FDCA_VARITH_AND
         else if funct6 = 0x28 then FDCA_VARITH_OR
         else if funct6 = 0x2C then FDCA_VARITH_XOR
         else if funct6 = 0x30 \<or> funct6 = 0x34 \<or> funct6 = 0x38 then FDCA_VARITH_SHIFT
         else if funct6 = 0x18 \<or> funct6 = 0x19 \<or> funct6 = 0x1A \<or> funct6 = 0x1B
           then FDCA_VARITH_CMP
         else if funct6 = 0x00 then FDCA_VARITH_REDUCE
         else FDCA_VARITH_ADD)"

text \<open>The descriptor after \<open>memset(instr, 0, sizeof( *instr))\<close>.\<close>

definition zeroed_instr :: fdca_rvv_instr where
  "zeroed_instr =
     \<lparr> opcode = 0, type = FDCA_RVV_INSTR_VMEM, type_union = 0,
       vd = 0, vs1 = 0, vs2 = 0, vm = False, imm_union = 0,
       uses_mask = False, modifies_vl = False, memory_access = False, latency = 0 \<rparr>"

text \<open>
  \<open>fdca_rvv_parse_instr\<close> writes through the pointer \<open>instr\<close>; \<open>None\<close> is the NULL
  pointer. The result is the return code and the descriptor as the call leaves it.
\<close>

definition fdca_rvv_parse_instr ::
  "u32 \<Rightarrow> fdca_rvv_instr option \<Rightarrow> (errno + unit) \<times> fdca_rvv_instr option" where
  "fdca_rvv_parse_instr opc instr =
     (case instr of
        None \<Rightarrow> (Inl EINVAL, None)
      | Some _ \<Rightarrow>
          (let i1 = zeroed_instr\<lparr>opcode := opc, type := fdca_rvv_decode_instr_type opc\<rparr>
           in if type i1 = FDCA_RVV_INSTR_INVALID then (Inl EINVAL, Some i1)
              else
                (let i2 = i1\<lparr>vd := ucast (EXTRACT_VD opc),
                             vs1 := ucast (EXTRACT_VS1 opc),
                             vs2 := ucast (EXTRACT_VS2 opc),
                             vm := (EXTRACT_VM opc = 0)\<rparr>
                 in case type i2 of
                      FDCA_RVV_INSTR_VMEM \<Rightarrow>
                        (Inr (), Some (i2\<lparr>type_union :=
                                            fdca_vmem_type_val (fdca_rvv_decode_vmem_type opc),
                                          memory_access := True,
                                          uses_mask := vm i2,
                                          latency := 10\<rparr>))
                    | FDCA_RVV_INSTR_VARITH \<Rightarrow>
                        (let vt = fdca_rvv_decode_varith_type opc
                         in (Inr (), Some (i2\<lparr>type_union := fdca_varith_type_val vt,
                                               memory_access := False,
                                               uses_mask := vm i2,
                                               latency := (if vt = FDCA_VARITH_MUL \<or>
                                                              vt = FDCA_VARITH_DIV
                                                           then 5 else 2)\<rparr>)))
                    | FDCA_RVV_INSTR_VSETVLI \<Rightarrow>
                        (Inr (), Some (i2\<lparr>imm_union := EXTRACT_VS1 opc,
                                          modifies_vl := True,
                                          memory_access := False,
                                          latency := 1\<rparr>))
                    | _ \<Rightarrow> (Inl EINVAL, Some i2))))"

definition fdca_rvv_validate_instr :: "fdca_rvv_instr option \<Rightarrow> errno + unit" where
  "fdca_rvv_validate_instr instr =
     (case instr of
        None \<Rightarrow> Inl EINVAL
      | Some i \<Rightarrow>
          if unat (vd i) \<ge> FDCA_RVV_NUM_VREGS \<or>
             unat (vs1 i) \<ge> FDCA_RVV_NUM_VREGS \<or>
             unat (vs2 i) \<ge> FDCA_RVV_NUM_VREGS then Inl ERANGE
          else
            (case type i of
               FDCA_RVV_INSTR_VMEM \<Rightarrow>
                 if uses_mask i \<and> vd i = 0 then Inl EINVAL else Inr ()
             | FDCA_RVV_INSTR_VARITH \<Rightarrow>
                 if varith_type i = fdca_varith_type_val FDCA_VARITH_REDUCE \<and> vd i \<noteq> vs1 i
                 then Inl EINVAL else Inr ()
             | FDCA_RVV_INSTR_VSETVLI \<Rightarrow>
                 if vl_setting i > 1024 then Inl ERANGE else Inr ()
             | _ \<Rightarrow> Inl EINVAL))"

definition fdca_rvv_instr_conflicts ::
  "fdca_rvv_instr option \<Rightarrow> fdca_rvv_instr option \<Rightarrow> bool" where
  "fdca_rvv_instr_conflicts pa pb =
     (case (pa, pb) of
        (Some a, Some b) \<Rightarrow>
          if modifies_vl a \<or> modifies_vl b then True
          else if vd a = vd b then True
          else if vd a = vs1 b \<or> vd a = vs2 b then True
          else if vd b = vs1 a \<or> vd b = vs2 a then True
          else if (uses_mask a \<or> uses_mask b) \<and> (vd a = 0 \<or> vd b = 0) then True
          else if memory_access a \<and> memory_access b then True
          else False
      | _ \<Rightarrow> False)"

section \<open>CSR context (fdca\_rvv\_state.h, fdca\_rvv\_state.c)\<close>

definition FDCA_VTYPE_VLMUL_MASK :: u64 where "FDCA_VTYPE_VLMUL_MASK = 0x7"
definition FDCA_VTYPE_VSEW_MASK :: u64 where "FDCA_VTYPE_VSEW_MASK = 0x38"
definition FDCA_VTYPE_VTA :: u64 where "FDCA_VTYPE_VTA = push_bit 6 1"
definition FDCA_VTYPE_VMA :: u64 where "FDCA_VTYPE_VMA = push_bit 7 1"
definition FDCA_VTYPE_VILL :: u64 where "FDCA_VTYPE_VILL = push_bit 63 1"
definition FDCA_VTYPE_VLMUL_SHIFT :: nat where "FDCA_VTYPE_VLMUL_SHIFT = 0"
definition FDCA_VTYPE_VSEW_SHIFT :: nat where "FDCA_VTYPE_VSEW_SHIFT = 3"

text \<open>The anonymous struct \<open>parsed\<close> inside \<open>struct fdca_rvv_csr_context\<close>.\<close>

record fdca_rvv_parsed =
  vlmul :: u32
  vsew :: u32
  vta :: bool
  vma :: bool
  vill :: bool
  sew_bits :: u32
  lmul_mul :: u32
  lmul_div :: u32

record fdca_rvv_csr_context =
  vstart :: u64
  vxsat :: u64
  vxrm :: u64
  vcsr :: u64
  vl :: u64
  vtype :: u64
  csr_vlenb :: u64
  parsed :: fdca_rvv_parsed
  valid :: bool
  dirty :: bool
  save_time :: u64
  save_count :: u32

text \<open>
  \<open>8 << vsew\<close>. The only caller passes a three-bit \<open>vsew\<close>, for which the shift
  stays far below the width of the result.
\<close>

definition fdca_rvv_get_sew_bits :: "u32 \<Rightarrow> u32" where
  "fdca_rvv_get_sew_bits vs = push_bit (unat vs) 8"

text \<open>The two output pointers \<open>mul\<close> and \<open>div\<close> are returned as a pair.\<close>

definition fdca_rvv_get_lmul_fraction :: "u32 \<Rightarrow> u32 \<times> u32" where
  "fdca_rvv_get_lmul_fraction vlm =
     (if vlm \<le> 3 then (push_bit (unat vlm) 1, 1)
      else if vlm \<ge> 5 \<and> vlm \<le> 7 then (1, push_bit (unat (8 - vlm)) 1)
      else (1, 1))"

definition fdca_rvv_csr_parse_vtype :: "fdca_rvv_csr_context \<Rightarrow> fdca_rvv_csr_context" where
  "fdca_rvv_csr_parse_vtype csr_ctx =
     (let vt = vtype csr_ctx;
          c1 = csr_ctx\<lparr>parsed := (parsed csr_ctx)\<lparr>vill := (vt AND FDCA_VTYPE_VILL \<noteq> 0)\<rparr>\<rparr>
      in if vill (parsed c1) then c1
         else
           (let p1 = (parsed c1)\<lparr>
                  vlmul := ucast (drop_bit FDCA_VTYPE_VLMUL_SHIFT vt AND FDCA_VTYPE_VLMUL_MASK),
                  vsew := ucast (drop_bit FDCA_VTYPE_VSEW_SHIFT vt AND
                                 drop_bit FDCA_VTYPE_VSEW_SHIFT FDCA_VTYPE_VSEW_MASK),
                  vta := (vt AND FDCA_VTYPE_VTA \<noteq> 0),
                  vma := (vt AND FDCA_VTYPE_VMA \<noteq> 0)\<rparr>;
                p2 = p1\<lparr>sew_bits := fdca_rvv_get_sew_bits (vsew p1)\<rparr>;
                (m, d) = fdca_rvv_get_lmul_fraction (vlmul p2)
            in c1\<lparr>parsed := p2\<lparr>lmul_mul := m, lmul_div := d\<rparr>\<rparr>))"

text \<open>
  The part of \<open>struct fdca_rvv_state_manager\<close> that CSR validation reads: the
  pointer \<open>hw_config\<close> (\<open>None\<close> is NULL), next to the policy flags. The global
  \<open>g_rvv_manager\<close> is itself a pointer and is passed as an option.
\<close>

record fdca_rvv_state_manager =
  hw_config :: "fdca_rvv_config option"
  hw_available :: bool
  lazy_save :: bool
  fast_switch :: bool
  save_threshold :: u32

text \<open>
  \<open>fdca_rvv_csr_validate\<close>. The quotient \<open>vlen / sew_bits\<close> is an unsigned 32-bit
  division; with \<open>sew_bits = 0\<close> the C division has no defined result, and the model
  returns \<open>None\<close> there instead of HOL's \<open>x div 0 = 0\<close>.
\<close>

definition fdca_rvv_csr_validate ::
  "fdca_rvv_state_manager option \<Rightarrow> fdca_rvv_csr_context option \<Rightarrow> (errno + unit) option" where
  "fdca_rvv_csr_validate g_rvv_manager csr_ctx =
     (case csr_ctx of
        None \<Rightarrow> Some (Inl EINVAL)
      | Some c \<Rightarrow>
          if vill (parsed c) then Some (Inl EINVAL)
          else
            (case (case g_rvv_manager of None \<Rightarrow> None | Some mgr \<Rightarrow> hw_config mgr) of
               Some cfg \<Rightarrow>
                 if sew_bits (parsed c) = 0 then None
                 else
                   (let max_vl = vlen cfg div sew_bits (parsed c)
                    in if vl c > ucast max_vl then Some (Inl ERANGE)
                       else if vstart c > vl c then Some (Inl ERANGE)
                       else Some (Inr ()))
             | None \<Rightarrow>
                 if vstart c > vl c then Some (Inl ERANGE) else Some (Inr ())))"

section \<open>Vector register file allocator (fdca\_vrf.c)\<close>

text \<open>
  \<open>struct fdca_vrf_manager\<close>: the allocation bitmap of \<open>FDCA_RVV_NUM_VREGS\<close> bits,
  the lane geometry and the three counters. The global \<open>vrf_mgr\<close> is a pointer and
  is passed as an option; each function returns the manager as it leaves it.
\<close>

record fdca_vrf_manager =
  allocated_regs :: u32
  lane_num_lanes :: u32
  lane_width :: u32
  regs_per_lane :: u32
  reg_allocations :: u64
  reg_frees :: u64
  lane_accesses :: u64

text \<open>
  The kernel's \<open>find_first_zero_bit(addr, size)\<close>: the index of the lowest clear bit
  below \<open>size\<close>, and \<open>size\<close> when there is none.
\<close>

definition find_first_zero_bit :: "u32 \<Rightarrow> nat \<Rightarrow> nat" where
  "find_first_zero_bit addr sz =
     (case filter (\<lambda>i. \<not> bit addr i) [0..<sz] of [] \<Rightarrow> sz | i # _ \<Rightarrow> i)"

definition fdca_vrf_alloc_reg ::
  "fdca_vrf_manager option \<Rightarrow> (errno + nat) \<times> fdca_vrf_manager option" where
  "fdca_vrf_alloc_reg vrf_mgr =
     (case vrf_mgr of
        None \<Rightarrow> (Inl ENODEV, None)
      | Some m \<Rightarrow>
          (let reg = find_first_zero_bit (allocated_regs m) FDCA_RVV_NUM_VREGS
           in if reg < FDCA_RVV_NUM_VREGS
              then (Inr reg, Some (m\<lparr>allocated_regs := set_bit reg (allocated_regs m),
                                      reg_allocations := reg_allocations m + 1\<rparr>))
              else (Inl ENOSPC, Some m)))"

definition fdca_vrf_free_reg ::
  "fdca_vrf_manager option \<Rightarrow> int \<Rightarrow> fdca_vrf_manager option" where
  "fdca_vrf_free_reg vrf_mgr reg =
     (case vrf_mgr of
        None \<Rightarrow> None
      | Some m \<Rightarrow>
          if reg < 0 \<or> reg \<ge> int FDCA_RVV_NUM_VREGS then Some m
          else if bit (allocated_regs m) (nat reg)
            then Some (m\<lparr>allocated_regs := unset_bit (nat reg) (allocated_regs m),
                          reg_frees := reg_frees m + 1\<rparr>)
            else Some m)"

text \<open>The register indices that a bitmap leaves free, in ascending order.\<close>

definition free_regs :: "u32 \<Rightarrow> nat list" where
  "free_regs w = filter (\<lambda>i. \<not> bit w i) [0..<FDCA_RVV_NUM_VREGS]"

text \<open>Calling \<open>fdca_vrf_alloc_reg\<close> \<open>n\<close> times in a row, dropping the return values.\<close>

fun alloc_times :: "nat \<Rightarrow> fdca_vrf_manager option \<Rightarrow> fdca_vrf_manager option" where
  "alloc_times 0 vrf_mgr = vrf_mgr"
| "alloc_times (Suc n) vrf_mgr = alloc_times n (snd (fdca_vrf_alloc_reg vrf_mgr))"

section \<open>Vector memory operations (fdca\_vector\_mem.c)\<close>

text \<open>
  \<open>struct fdca_vector_mem_op\<close>. Pointers are options (\<open>None\<close> is NULL); \<open>total_size\<close>
  is a \<open>size_t\<close>.
\<close>

record fdca_vector_mem_op =
  op_type :: fdca_vmem_type
  base_addr :: u64
  stride :: u32
  indices :: "u32 list option"
  num_elements :: u32
  element_size :: u32
  is_load :: bool
  dma_addr :: u64
  cpu_addr :: "u64 option"
  total_size :: u64

text \<open>What the vector-memory path reads of \<open>struct fdca_device\<close>.\<close>

record fdca_device =
  rvv_config :: fdca_rvv_config
  vpu_present :: bool

text \<open>
  The collaborators are the DMA allocator and the register window of the vector unit.
  Every call to them is appended to \<open>trace\<close>. Their answers are scripted:
  \<open>alloc_results\<close> holds what the successive calls of \<open>dma_alloc_coherent\<close> return
  (the CPU address and the device address, \<open>None\<close> for NULL; an exhausted script
  answers NULL), and \<open>status_reads\<close> holds, for each round of the polling loop, the
  value read from the status register and whether the deadline has passed by then.
\<close>

datatype hw_event =
    DMA_ALLOC u64
  | DMA_FREE u64
  | IOWRITE64 nat u64
  | IOWRITE32 nat u32

record hw_state =
  alloc_results :: "(u64 \<times> u64) option list"
  status_reads :: "(u32 \<times> bool) list"
  trace :: "hw_event list"

definition dma_alloc_coherent :: "u64 \<Rightarrow> hw_state \<Rightarrow> (u64 \<times> u64) option \<times> hw_state" where
  "dma_alloc_coherent sz hw =
     (case alloc_results hw of
        [] \<Rightarrow> (None, hw\<lparr>trace := trace hw @ [DMA_ALLOC sz]\<rparr>)
      | r # rs \<Rightarrow> (r, hw\<lparr>alloc_results := rs, trace := trace hw @ [DMA_ALLOC sz]\<rparr>))"

definition dma_free_coherent :: "u64 \<Rightarrow> hw_state \<Rightarrow> hw_state" where
  "dma_free_coherent sz hw = hw\<lparr>trace := trace hw @ [DMA_FREE sz]\<rparr>"

definition iowrite64 :: "u64 \<Rightarrow> nat \<Rightarrow> hw_state \<Rightarrow> hw_state" where
  "iowrite64 v off hw = hw\<lparr>trace := trace hw @ [IOWRITE64 off v]\<rparr>"

definition iowrite32 :: "u32 \<Rightarrow> nat \<Rightarrow> hw_state \<Rightarrow> hw_state" where
  "iowrite32 v off hw = hw\<lparr>trace := trace hw @ [IOWRITE32 off v]\<rparr>"

text \<open>
  The product \<open>num_elements * element_size\<close> (or \<open>* stride\<close>) is taken in 32 bits
  and then widened to \<open>size_t\<close>.
\<close>

definition fdca_vector_mem_prepare_dma ::
  "fdca_vector_mem_op \<Rightarrow> hw_state \<Rightarrow> (errno + unit) \<times> fdca_vector_mem_op \<times> hw_state" where
  "fdca_vector_mem_prepare_dma op hw =
     (case (case op_type op of
              FDCA_VMEM_UNIT_STRIDE \<Rightarrow> Some (num_elements op * element_size op)
            | FDCA_VMEM_STRIDED \<Rightarrow> Some (num_elements op * stride op)
            | FDCA_VMEM_INDEXED \<Rightarrow> Some (num_elements op * element_size op)
            | FDCA_VMEM_SEGMENT \<Rightarrow> Some (num_elements op * element_size op)
            | _ \<Rightarrow> None) of
        None \<Rightarrow> (Inl EINVAL, op, hw)
      | Some sz \<Rightarrow>
          (let op1 = op\<lparr>total_size := ucast sz\<rparr>;
               (r, hw1) = dma_alloc_coherent (total_size op1) hw
           in case r of
                None \<Rightarrow> (Inl ENOMEM, op1\<lparr>cpu_addr := None\<rparr>, hw1)
              | Some (cpu, dev) \<Rightarrow> (Inr (), op1\<lparr>cpu_addr := Some cpu, dma_addr := dev\<rparr>, hw1)))"

definition fdca_vector_mem_cleanup_dma ::
  "fdca_vector_mem_op \<Rightarrow> hw_state \<Rightarrow> fdca_vector_mem_op \<times> hw_state" where
  "fdca_vector_mem_cleanup_dma op hw =
     (case cpu_addr op of
        Some _ \<Rightarrow> (op\<lparr>cpu_addr := None\<rparr>, dma_free_coherent (total_size op) hw)
      | None \<Rightarrow> (op, hw))"

definition ctrl_reg_of :: "bool \<Rightarrow> fdca_vmem_type \<Rightarrow> u32" where
  "ctrl_reg_of load t =
     (if load then push_bit 0 1 else 0) OR push_bit 4 (of_nat (fdca_vmem_type_val t))"

definition fdca_vector_mem_unit_stride ::
  "fdca_vector_mem_op \<Rightarrow> hw_state \<Rightarrow> (errno + unit) \<times> hw_state" where
  "fdca_vector_mem_unit_stride op hw =
     (Inr (),
      (iowrite32 (push_bit 0 1) 0x11C \<circ>
       iowrite32 (ctrl_reg_of (is_load op) FDCA_VMEM_UNIT_STRIDE) 0x118 \<circ>
       iowrite64 (dma_addr op) 0x110 \<circ>
       iowrite32 (element_size op) 0x10C \<circ>
       iowrite32 (num_elements op) 0x108 \<circ>
       iowrite64 (base_addr op) 0x100) hw)"

definition fdca_vector_mem_strided ::
  "fdca_vector_mem_op \<Rightarrow> hw_state \<Rightarrow> (errno + unit) \<times> hw_state" where
  "fdca_vector_mem_strided op hw =
     (Inr (),
      (iowrite32 (push_bit 0 1) 0x13C \<circ>
       iowrite32 (ctrl_reg_of (is_load op) FDCA_VMEM_STRIDED) 0x138 \<circ>
       iowrite64 (dma_addr op) 0x134 \<circ>
       iowrite32 (element_size op) 0x130 \<circ>
       iowrite32 (num_elements op) 0x12C \<circ>
       iowrite32 (stride op) 0x128 \<circ>
       iowrite64 (base_addr op) 0x120) hw)"

text \<open>
  The indexed mode stages the index array in a DMA buffer of its own
  (\<open>num_elements * sizeof(u32)\<close>, a \<open>size_t\<close> product) and frees it after the kick-off.
  Copying a non-empty range out of a NULL \<open>indices\<close> pointer does not return: \<open>None\<close>.
\<close>

definition fdca_vector_mem_indexed ::
  "fdca_vector_mem_op \<Rightarrow> hw_state \<Rightarrow> ((errno + unit) \<times> hw_state) option" where
  "fdca_vector_mem_indexed op hw =
     (let indices_size = ucast (num_elements op) * 4;
          (r, hw1) = dma_alloc_coherent indices_size hw
      in case r of
           None \<Rightarrow> Some (Inl ENOMEM, hw1)
         | Some (indices_cpu, indices_dma) \<Rightarrow>
             if indices op = None \<and> indices_size \<noteq> 0 then None
             else Some (Inr (),
               (dma_free_coherent indices_size \<circ>
                iowrite32 (push_bit 0 1) 0x164 \<circ>
                iowrite32 (ctrl_reg_of (is_load op) FDCA_VMEM_INDEXED) 0x160 \<circ>
                iowrite64 (dma_addr op) 0x158 \<circ>
                iowrite32 (element_size op) 0x154 \<circ>
                iowrite32 (num_elements op) 0x150 \<circ>
                iowrite64 indices_dma 0x148 \<circ>
                iowrite64 (base_addr op) 0x140) hw1))"

definition fdca_vector_mem_segment ::
  "fdca_vector_mem_op \<Rightarrow> hw_state \<Rightarrow> (errno + unit) \<times> hw_state" where
  "fdca_vector_mem_segment op hw =
     (let num_fields = stride op
      in (Inr (),
          (iowrite32 (push_bit 0 1) 0x19C \<circ>
           iowrite32 (ctrl_reg_of (is_load op) FDCA_VMEM_SEGMENT) 0x198 \<circ>
           iowrite64 (dma_addr op) 0x194 \<circ>
           iowrite32 (element_size op) 0x190 \<circ>
           iowrite32 (num_elements op) 0x18C \<circ>
           iowrite32 num_fields 0x188 \<circ>
           iowrite64 (base_addr op) 0x180) hw))"

text \<open>
  The polling loop of \<open>fdca_vector_mem_wait_completion\<close>, one script entry per round:
  the completion bit decides first, then the deadline. A script that ends before either
  happens leaves the loop still running, which is \<open>None\<close>.
\<close>

fun poll_status :: "(u32 \<times> bool) list \<Rightarrow> ((errno + unit) \<times> (u32 \<times> bool) list) option" where
  "poll_status [] = None"
| "poll_status ((status, expired) # rest) =
     (if status AND push_bit 0 1 \<noteq> 0
      then (if status AND push_bit 1 1 \<noteq> 0 then Some (Inl EIO, rest) else Some (Inr (), rest))
      else if expired then Some (Inl ETIMEDOUT, rest)
      else poll_status rest)"

definition fdca_vector_mem_wait_completion ::
  "hw_state \<Rightarrow> ((errno + unit) \<times> hw_state) option" where
  "fdca_vector_mem_wait_completion hw =
     (case poll_status (status_reads hw) of
        None \<Rightarrow> None
      | Some (r, rest) \<Rightarrow> Some (r, hw\<lparr>status_reads := rest\<rparr>))"

text \<open>
  \<open>fdca_vector_mem_execute\<close>: the return code, the descriptor and the collaborators'
  state when the call returns; \<open>None\<close> when it does not return.
\<close>

definition fdca_vector_mem_execute ::
  "fdca_device option \<Rightarrow> fdca_vector_mem_op option \<Rightarrow> hw_state \<Rightarrow>
   ((errno + unit) \<times> fdca_vector_mem_op option \<times> hw_state) option" where
  "fdca_vector_mem_execute fdev pop hw =
     (case (fdev, pop) of
        (Some dev, Some op) \<Rightarrow>
          if \<not> vpu_present dev then Some (Inl ENODEV, Some op, hw)
          else
            (case fdca_vector_mem_prepare_dma op hw of
               (Inl e, op1, hw1) \<Rightarrow> Some (Inl e, Some op1, hw1)
             | (Inr _, op1, hw1) \<Rightarrow>
                 (case (case op_type op1 of
                          FDCA_VMEM_UNIT_STRIDE \<Rightarrow> Some (fdca_vector_mem_unit_stride op1 hw1)
                        | FDCA_VMEM_STRIDED \<Rightarrow> Some (fdca_vector_mem_strided op1 hw1)
                        | FDCA_VMEM_INDEXED \<Rightarrow> fdca_vector_mem_indexed op1 hw1
                        | FDCA_VMEM_SEGMENT \<Rightarrow> Some (fdca_vector_mem_segment op1 hw1)
                        | _ \<Rightarrow> Some (Inl EINVAL, hw1)) of
                    None \<Rightarrow> None
                  | Some (Inl e, hw2) \<Rightarrow>
                      (let (op2, hw3) = fdca_vector_mem_cleanup_dma op1 hw2
                       in Some (Inl e, Some op2, hw3))
                  | Some (Inr _, hw2) \<Rightarrow>
                      (case fdca_vector_mem_wait_completion hw2 of
                         None \<Rightarrow> None
                       | Some (r, hw3) \<Rightarrow>
                           (let (op2, hw4) = fdca_vector_mem_cleanup_dma op1 hw3
                            in Some (r, Some op2, hw4)))))
      | _ \<Rightarrow> Some (Inl EINVAL, pop, hw))"

text \<open>The sizes passed to the DMA allocator, in call order.\<close>

fun dma_allocs :: "hw_event list \<Rightarrow> u64 list" where
  "dma_allocs [] = []"
| "dma_allocs (DMA_ALLOC sz # es) = sz # dma_allocs es"
| "dma_allocs (_ # es) = dma_allocs es"

section \<open>Concrete inputs\<close>

text \<open>
  A capability with VLEN 1024, ELEN 64 and four lanes; the latencies and the bank count
  are the ones the capability detection fills in.
\<close>

definition example_config :: fdca_rvv_config where
  "example_config =
     \<lparr> vlen = 1024, elen = 64, num_lanes = 4, vlenb = 128,
       fp_support = True, fixed_point_support = True, segment_support = True,
       os_support = True, multiplier_latency = [0, 1, 1, 1],
       fpu_latency = [5, 3, 2, 1, 0], vrf_size_per_lane = 1024, vrf_banks_per_lane = 8 \<rparr>"

text \<open>The two descriptors of the hazard scenario.\<close>

definition instr_a :: fdca_rvv_instr where
  "instr_a = zeroed_instr\<lparr>type := FDCA_RVV_INSTR_VARITH, vd := 5, vs1 := 1, vs2 := 2\<rparr>"

definition instr_b :: fdca_rvv_instr where
  "instr_b = zeroed_instr\<lparr>type := FDCA_RVV_INSTR_VARITH, vd := 3, vs1 := 5, vs2 := 4\<rparr>"

text \<open>A descriptor of the atomic class, which the header declares and the decoder never produces.\<close>

definition vamo_instr :: fdca_rvv_instr where
  "vamo_instr = zeroed_instr\<lparr>type := FDCA_RVV_INSTR_VAMO, vd := 1, vs1 := 2, vs2 := 3\<rparr>"

text \<open>
  A CSR context as \<open>kzalloc\<close> leaves it, and the same with VTYPE, VL and VSTART written
  (as a save from hardware would, before VTYPE is parsed).
\<close>

definition zeroed_csr :: fdca_rvv_csr_context where
  "zeroed_csr =
     \<lparr> vstart = 0, vxsat = 0, vxrm = 0, vcsr = 0, vl = 0, vtype = 0, csr_vlenb = 0,
       parsed = \<lparr> vlmul = 0, vsew = 0, vta = False, vma = False, vill = False,
                  sew_bits = 0, lmul_mul = 0, lmul_div = 0 \<rparr>,
       valid = False, dirty = False, save_time = 0, save_count = 0 \<rparr>"

definition raw_csr :: "u64 \<Rightarrow> u64 \<Rightarrow> u64 \<Rightarrow> fdca_rvv_csr_context" where
  "raw_csr vt l s = zeroed_csr\<lparr>vtype := vt, vl := l, vstart := s\<rparr>"

text \<open>The state manager as \<open>fdca_rvv_state_manager_init\<close> sets it up for that capability.\<close>

definition example_manager :: fdca_rvv_state_manager where
  "example_manager =
     \<lparr> hw_config = Some example_config, hw_available = True,
       lazy_save = True, fast_switch = True, save_threshold = 10 \<rparr>"

text \<open>The register file manager as \<open>fdca_vrf_init\<close> leaves it for that capability.\<close>

definition fresh_vrf_manager :: fdca_vrf_manager where
  "fresh_vrf_manager =
     \<lparr> allocated_regs = 0, lane_num_lanes = 4, lane_width = 256, regs_per_lane = 32,
       reg_allocations = 0, reg_frees = 0, lane_accesses = 0 \<rparr>"

text \<open>
  A unit-stride load of zero elements of four bytes, as \<open>fdca_vector_mem_create_op\<close> builds
  it; a device whose vector unit is present; and two collaborators: one whose allocator
  answers NULL, and one whose allocator hands out a buffer and whose status register shows
  completion at the first read.
\<close>

definition zero_elements_op :: fdca_vector_mem_op where
  "zero_elements_op =
     \<lparr> op_type = FDCA_VMEM_UNIT_STRIDE, base_addr = 0x80000000, stride = 0, indices = None,
       num_elements = 0, element_size = 4, is_load = True,
       dma_addr = 0, cpu_addr = None, total_size = 0 \<rparr>"

definition vpu_device :: fdca_device where
  "vpu_device = \<lparr> rvv_config = example_config, vpu_present = True \<rparr>"

definition hw_no_memory :: hw_state where
  "hw_no_memory = \<lparr> alloc_results = [None], status_reads = [], trace = [] \<rparr>"

definition hw_completing :: hw_state where
  "hw_completing =
     \<lparr> alloc_results = [Some (0xFFFF000000001000, 0x10000000)],
       status_reads = [(1, False)], trace = [] \<rparr>"

section \<open>Capability validation\<close>

text \<open>
  C1. For every configuration, \<open>fdca_rvv_config_validate\<close> returns success exactly when
  128 \<open>\<le>\<close> vlen \<open>\<le>\<close> 65536, elen \<open>\<le>\<close> 64 and 1 \<open>\<le>\<close> num\_lanes \<open>\<le>\<close> 16; in every
  other case it returns \<open>-EINVAL\<close> (InvalidConfig); and it leaves the configuration as it
  found it.
\<close>

theorem config_validate_bounds:
  "fdca_rvv_config_validate c =
     (if 128 \<le> vlen c \<and> vlen c \<le> 65536 \<and> elen c \<le> 64 \<and>
         1 \<le> num_lanes c \<and> num_lanes c \<le> 16
      then Inr () else Inl EINVAL, c)"
  by (auto simp: fdca_rvv_config_validate_def not_less not_le word_less_1)

theorem config_validate_bounds_witness:
  "fdca_rvv_config_validate example_config = (Inr (), example_config) \<and>
   fdca_rvv_config_validate (example_config\<lparr>num_lanes := 17\<rparr>) =
     (Inl EINVAL, example_config\<lparr>num_lanes := 17\<rparr>)"
  using config_validate_bounds [of example_config]
        config_validate_bounds [of "example_config\<lparr>num_lanes := 17\<rparr>"]
  by (simp add: example_config_def)

section \<open>Hazards between two instructions\<close>

text \<open>
  C3. For two descriptors \<open>a\<close> and \<open>b\<close>, \<open>fdca_rvv_instr_conflicts\<close> is true exactly
  when one of them modifies VL, or they have the same destination, or the destination of
  one is one of the two sources of the other, or one of them uses the mask while one of
  the destinations is register 0, or both access memory. The scenario pair
  (vd=5, vs1=1, vs2=2) and (vd=3, vs1=5, vs2=4) conflicts.
\<close>

theorem instr_conflicts_iff:
  "(fdca_rvv_instr_conflicts (Some a) (Some b) \<longleftrightarrow>
      (modifies_vl a \<or> modifies_vl b) \<or>
      vd a = vd b \<or>
      (vd a = vs1 b \<or> vd a = vs2 b \<or> vd b = vs1 a \<or> vd b = vs2 a) \<or>
      ((uses_mask a \<or> uses_mask b) \<and> (vd a = 0 \<or> vd b = 0)) \<or>
      (memory_access a \<and> memory_access b)) \<and>
   fdca_rvv_instr_conflicts (Some instr_a) (Some instr_b)"
  by (auto simp: fdca_rvv_instr_conflicts_def instr_a_def instr_b_def zeroed_instr_def)

theorem instr_conflicts_iff_witness:
  "fdca_rvv_instr_conflicts (Some instr_a) (Some (instr_b\<lparr>vs1 := 6\<rparr>)) = False \<and>
   fdca_rvv_instr_conflicts (Some instr_a) (Some (instr_b\<lparr>vs1 := 6, modifies_vl := True\<rparr>))"
  using instr_conflicts_iff [of instr_a "instr_b\<lparr>vs1 := 6\<rparr>"]
        instr_conflicts_iff [of instr_a "instr_b\<lparr>vs1 := 6, modifies_vl := True\<rparr>"]
  by (simp add: instr_a_def instr_b_def zeroed_instr_def)

text \<open>
  C8. The hazard predicate is symmetric in its two arguments, for every pair of
  descriptors (and for NULL pointers). When \<open>a\<close>'s destination is \<open>b\<close>'s first source,
  the pair conflicts in both orders, whatever \<open>a\<close>'s sources and \<open>b\<close>'s destination are.
\<close>

theorem instr_conflicts_symmetric:
  "fdca_rvv_instr_conflicts pa pb = fdca_rvv_instr_conflicts pb pa \<and>
   (vd a = vs1 b \<longrightarrow>
      fdca_rvv_instr_conflicts (Some a) (Some b) \<and> fdca_rvv_instr_conflicts (Some b) (Some a))"
  by (cases pa; cases pb) (auto simp: fdca_rvv_instr_conflicts_def)

theorem instr_conflicts_symmetric_witness:
  "vd instr_a = vs1 instr_b \<and> vs1 instr_a \<noteq> vd instr_b \<and>
   fdca_rvv_instr_conflicts (Some instr_a) (Some instr_b) \<and>
   fdca_rvv_instr_conflicts (Some instr_b) (Some instr_a)"
proof -
  have h: "vd instr_a = vs1 instr_b"
    by (simp add: instr_a_def instr_b_def)
  have "vs1 instr_a \<noteq> vd instr_b"
    by (simp add: instr_a_def instr_b_def)
  with h instr_conflicts_symmetric [of "Some instr_a" "Some instr_b" instr_a instr_b]
  show ?thesis by simp
qed

section \<open>Auxiliary facts on bit fields\<close>

lemma and7_cases32:
  fixes w :: u32
  shows "w AND 7 = 0 \<or> w AND 7 = 1 \<or> w AND 7 = 2 \<or> w AND 7 = 3 \<or>
         w AND 7 = 4 \<or> w AND 7 = 5 \<or> w AND 7 = 6 \<or> w AND 7 = 7"
proof -
  have "w AND 7 \<le> 7" by (rule word_and_le1)
  then have "unat (w AND 7) \<le> 7" by (simp add: word_le_nat_alt)
  then have "unat (w AND 7) \<in> {0, 1, 2, 3, 4, 5, 6, 7}" by auto
  then show ?thesis
    unfolding word_eq_iff_unsigned[where ?'a=nat] by auto
qed

lemma and7_cases64:
  fixes w :: u64
  shows "w AND 7 = 0 \<or> w AND 7 = 1 \<or> w AND 7 = 2 \<or> w AND 7 = 3 \<or>
         w AND 7 = 4 \<or> w AND 7 = 5 \<or> w AND 7 = 6 \<or> w AND 7 = 7"
proof -
  have "w AND 7 \<le> 7" by (rule word_and_le1)
  then have "unat (w AND 7) \<le> 7" by (simp add: word_le_nat_alt)
  then have "unat (w AND 7) \<in> {0, 1, 2, 3, 4, 5, 6, 7}" by auto
  then show ?thesis
    unfolding word_eq_iff_unsigned[where ?'a=nat] by auto
qed

lemma extract_vm_zero: "(EXTRACT_VM opc = 0) \<longleftrightarrow> \<not> bit opc 25"
  unfolding EXTRACT_VM_def
  by (simp add: and_one_eq bit_iff_odd_drop_bit even_iff_mod_2_eq_zero)

lemma vill_bit: "(vt AND FDCA_VTYPE_VILL \<noteq> 0) = bit vt 63"
  by (simp add: FDCA_VTYPE_VILL_def bit_iff_and_push_bit_not_eq_0)

lemma vta_bit: "(vt AND FDCA_VTYPE_VTA \<noteq> 0) = bit vt 6"
  by (simp add: FDCA_VTYPE_VTA_def bit_iff_and_push_bit_not_eq_0)

lemma vma_bit: "(vt AND FDCA_VTYPE_VMA \<noteq> 0) = bit vt 7"
  by (simp add: FDCA_VTYPE_VMA_def bit_iff_and_push_bit_not_eq_0)

section \<open>VTYPE decoding\<close>

lemma parse_vtype_ill:
  "bit (vtype c) 63 \<Longrightarrow>
   fdca_rvv_csr_parse_vtype c = c\<lparr>parsed := (parsed c)\<lparr>vill := True\<rparr>\<rparr>"
  by (simp add: fdca_rvv_csr_parse_vtype_def Let_def vill_bit)

lemma parse_vtype_legal:
  "\<not> bit (vtype c) 63 \<Longrightarrow>
   fdca_rvv_csr_parse_vtype c =
     c\<lparr>parsed :=
        \<lparr>vlmul = ucast (vtype c AND 7),
         vsew = ucast (drop_bit 3 (vtype c) AND 7),
         vta = bit (vtype c) 6, vma = bit (vtype c) 7, vill = False,
         sew_bits = fdca_rvv_get_sew_bits (ucast (drop_bit 3 (vtype c) AND 7)),
         lmul_mul = fst (fdca_rvv_get_lmul_fraction (ucast (vtype c AND 7))),
         lmul_div = snd (fdca_rvv_get_lmul_fraction (ucast (vtype c AND 7)))\<rparr>\<rparr>"
  by (simp add: fdca_rvv_csr_parse_vtype_def Let_def vill_bit vta_bit vma_bit
      FDCA_VTYPE_VLMUL_SHIFT_def FDCA_VTYPE_VSEW_SHIFT_def
      FDCA_VTYPE_VLMUL_MASK_def FDCA_VTYPE_VSEW_MASK_def split: prod.splits)

lemma sew_bits_value:
  fixes w :: u64
  shows "unat (fdca_rvv_get_sew_bits (ucast (w AND 7))) = 8 * 2 ^ unat (ucast (w AND 7) :: u32)"
  using and7_cases64[of w]
  by (auto simp: fdca_rvv_get_sew_bits_def)

lemma lmul_fraction_value:
  fixes w :: u64
  defines "v \<equiv> (ucast (w AND 7) :: u32)"
  shows "(v \<le> 3 \<longrightarrow> fdca_rvv_get_lmul_fraction v = (2 ^ unat v, 1)) \<and>
         (5 \<le> v \<longrightarrow> v \<le> 7 \<and> fdca_rvv_get_lmul_fraction v = (1, 2 ^ (8 - unat v))) \<and>
         (v = 4 \<longrightarrow> fdca_rvv_get_lmul_fraction v = (1, 1))"
  using and7_cases64[of w] unfolding v_def
  by (auto simp: fdca_rvv_get_lmul_fraction_def word_le_nat_alt)

text \<open>
  C2. For every 64-bit VTYPE value, \<open>fdca_rvv_csr_parse_vtype\<close> sets \<open>vill\<close> from bit 63.
  When the bit is set it returns at once: the context is the old one with only \<open>vill\<close>
  written. When the bit is clear, \<open>vlmul\<close> is bits 2..0, \<open>vsew\<close> is bits 5..3, \<open>vta\<close>
  and \<open>vma\<close> are bits 6 and 7, \<open>sew_bits\<close> is \<open>8 << vsew\<close> (that is \<open>8 * 2^vsew\<close>, without
  overflow), and the LMUL ratio is \<open>2^vlmul / 1\<close> for \<open>vlmul\<close> 0 to 3,
  \<open>1 / 2^(8 - vlmul)\<close> for 5 to 7, and \<open>1 / 1\<close> for the reserved value 4. VTYPE 0
  parses to \<open>vlmul = 0\<close>, \<open>vsew = 0\<close>, \<open>vta = vma = vill = False\<close>.
\<close>

theorem parse_vtype_fields:
  fixes c :: fdca_rvv_csr_context
  defines "p \<equiv> parsed (fdca_rvv_csr_parse_vtype c)"
  shows
  "vill p = bit (vtype c) 63 \<and>
   (bit (vtype c) 63 \<longrightarrow>
      fdca_rvv_csr_parse_vtype c = c\<lparr>parsed := (parsed c)\<lparr>vill := True\<rparr>\<rparr>) \<and>
   (\<not> bit (vtype c) 63 \<longrightarrow>
      fdca_rvv_csr_parse_vtype c = c\<lparr>parsed := p\<rparr> \<and>
      vlmul p = ucast (vtype c AND 7) \<and>
      vsew p = ucast (drop_bit 3 (vtype c) AND 7) \<and>
      vta p = bit (vtype c) 6 \<and>
      vma p = bit (vtype c) 7 \<and>
      sew_bits p = push_bit (unat (vsew p)) 8 \<and>
      unat (sew_bits p) = 8 * 2 ^ unat (vsew p) \<and>
      (vlmul p \<le> 3 \<longrightarrow> lmul_mul p = 2 ^ unat (vlmul p) \<and> lmul_div p = 1) \<and>
      (5 \<le> vlmul p \<longrightarrow>
         vlmul p \<le> 7 \<and> lmul_mul p = 1 \<and> lmul_div p = 2 ^ (8 - unat (vlmul p))) \<and>
      (vlmul p = 4 \<longrightarrow> lmul_mul p = 1 \<and> lmul_div p = 1)) \<and>
   (vtype c = 0 \<longrightarrow>
      vlmul p = 0 \<and> vsew p = 0 \<and> \<not> vta p \<and> \<not> vma p \<and> \<not> vill p \<and> sew_bits p = 8 \<and>
      lmul_mul p = 1 \<and> lmul_div p = 1)"
proof (cases "bit (vtype c) 63")
  case True
  then have "vtype c \<noteq> 0" by auto
  with True show ?thesis
    by (simp add: p_def parse_vtype_ill)
next
  case False
  note eq = parse_vtype_legal [OF False]
  have sew: "unat (sew_bits p) = 8 * 2 ^ unat (vsew p)"
    by (simp add: p_def eq sew_bits_value)
  have lm: "(vlmul p \<le> 3 \<longrightarrow> lmul_mul p = 2 ^ unat (vlmul p) \<and> lmul_div p = 1) \<and>
      (5 \<le> vlmul p \<longrightarrow>
         vlmul p \<le> 7 \<and> lmul_mul p = 1 \<and> lmul_div p = 2 ^ (8 - unat (vlmul p))) \<and>
      (vlmul p = 4 \<longrightarrow> lmul_mul p = 1 \<and> lmul_div p = 1)"
    using lmul_fraction_value [of "vtype c"] by (simp add: p_def eq)
  have zero: "vtype c = 0 \<longrightarrow>
      vlmul p = 0 \<and> vsew p = 0 \<and> \<not> vta p \<and> \<not> vma p \<and> \<not> vill p \<and> sew_bits p = 8 \<and>
      lmul_mul p = 1 \<and> lmul_div p = 1"
    by (simp add: p_def eq fdca_rvv_get_sew_bits_def fdca_rvv_get_lmul_fraction_def)
  have rest: "fdca_rvv_csr_parse_vtype c = c\<lparr>parsed := p\<rparr> \<and>
      vlmul p = ucast (vtype c AND 7) \<and>
      vsew p = ucast (drop_bit 3 (vtype c) AND 7) \<and>
      vta p = bit (vtype c) 6 \<and>
      vma p = bit (vtype c) 7 \<and>
      sew_bits p = push_bit (unat (vsew p)) 8 \<and> vill p = bit (vtype c) 63"
    using False by (simp add: p_def eq fdca_rvv_get_sew_bits_def)
  from False sew lm zero rest show ?thesis by simp
qed


theorem parse_vtype_fields_witness:
  "parsed (fdca_rvv_csr_parse_vtype (raw_csr 0xDD 0 0)) =
     \<lparr>vlmul = 5, vsew = 3, vta = True, vma = True, vill = False,
      sew_bits = 64, lmul_mul = 1, lmul_div = 8\<rparr> \<and>
   parsed (fdca_rvv_csr_parse_vtype (raw_csr 0x12 0 0)) =
     \<lparr>vlmul = 2, vsew = 2, vta = False, vma = False, vill = False,
      sew_bits = 32, lmul_mul = 4, lmul_div = 1\<rparr> \<and>
   parsed (fdca_rvv_csr_parse_vtype (raw_csr 0x8000000000000005 0 0)) =
     (parsed zeroed_csr)\<lparr>vill := True\<rparr>"
proof -
  have v1: "vtype (raw_csr 0xDD 0 0) = 0xDD" and v2: "vtype (raw_csr 0x12 0 0) = 0x12"
    and v3: "vtype (raw_csr 0x8000000000000005 0 0) = 0x8000000000000005"
    and p3: "parsed (raw_csr 0x8000000000000005 0 0) = parsed zeroed_csr"
    by (simp_all add: raw_csr_def)
  have a: "parsed (fdca_rvv_csr_parse_vtype (raw_csr 0xDD 0 0)) =
     \<lparr>vlmul = 5, vsew = 3, vta = True, vma = True, vill = False,
      sew_bits = 64, lmul_mul = 1, lmul_div = 8\<rparr>"
    using parse_vtype_fields [of "raw_csr 0xDD 0 0"] unfolding v1
    by (simp add: word_le_nat_alt)
  have b: "parsed (fdca_rvv_csr_parse_vtype (raw_csr 0x12 0 0)) =
     \<lparr>vlmul = 2, vsew = 2, vta = False, vma = False, vill = False,
      sew_bits = 32, lmul_mul = 4, lmul_div = 1\<rparr>"
    using parse_vtype_fields [of "raw_csr 0x12 0 0"] unfolding v2
    by (simp add: word_le_nat_alt)
  have c: "parsed (fdca_rvv_csr_parse_vtype (raw_csr 0x8000000000000005 0 0)) =
     (parsed zeroed_csr)\<lparr>vill := True\<rparr>"
    using parse_vtype_fields [of "raw_csr 0x8000000000000005 0 0"] unfolding v3
    by (simp add: p3)
  from a b c show ?thesis by simp
qed

section \<open>Instruction classification\<close>

text \<open>
  C4, as the decoder has it. The class of a 32-bit instruction word is decided by its
  7-bit base opcode: \<open>0x07\<close> and \<open>0x27\<close> (vector load and store) give VMEM; \<open>0x57\<close>
  gives VSETVLI when funct3 is 7 and VARITH for every other funct3; \<open>0x43\<close> (the
  multiply-add opcode) gives VARITH whatever funct3 is; every other base opcode gives
  INVALID, and \<open>fdca_rvv_parse_instr\<close> then returns \<open>-EINVAL\<close> (DecodeError).
\<close>

theorem decode_instr_type_classes:
  "(opc AND 0x7F = 0x07 \<or> opc AND 0x7F = 0x27 \<longrightarrow>
       fdca_rvv_decode_instr_type opc = FDCA_RVV_INSTR_VMEM) \<and>
   (opc AND 0x7F = 0x57 \<longrightarrow>
       fdca_rvv_decode_instr_type opc =
         (if drop_bit 12 opc AND 0x7 = 0x7 then FDCA_RVV_INSTR_VSETVLI
          else FDCA_RVV_INSTR_VARITH)) \<and>
   (opc AND 0x7F = 0x43 \<longrightarrow> fdca_rvv_decode_instr_type opc = FDCA_RVV_INSTR_VARITH) \<and>
   (opc AND 0x7F \<notin> {0x07, 0x27, 0x43, 0x57} \<longrightarrow>
       fdca_rvv_decode_instr_type opc = FDCA_RVV_INSTR_INVALID) \<and>
   (fdca_rvv_decode_instr_type opc = FDCA_RVV_INSTR_INVALID \<longrightarrow>
       fst (fdca_rvv_parse_instr opc (Some i0)) = Inl EINVAL)"
  using and7_cases32 [of "drop_bit 12 opc"]
  by (auto simp: fdca_rvv_decode_instr_type_def fdca_rvv_parse_instr_def Let_def
      RVV_OPCODE_MASK_def RVV_LOAD_FP_def RVV_STORE_FP_def RVV_MADD_def RVV_ARITH_def
      EXTRACT_FUNCT3_def)

theorem decode_instr_type_classes_witness:
  "fdca_rvv_decode_instr_type 0x7057 = FDCA_RVV_INSTR_VSETVLI \<and>
   fdca_rvv_decode_instr_type 0x2057 = FDCA_RVV_INSTR_VARITH \<and>
   fdca_rvv_decode_instr_type 0x0027 = FDCA_RVV_INSTR_VMEM \<and>
   fdca_rvv_decode_instr_type 0x7043 = FDCA_RVV_INSTR_VARITH \<and>
   fdca_rvv_decode_instr_type 0x0033 = FDCA_RVV_INSTR_INVALID \<and>
   fst (fdca_rvv_parse_instr 0x0033 (Some zeroed_instr)) = Inl EINVAL"
  using decode_instr_type_classes [of "0x7057" zeroed_instr]
        decode_instr_type_classes [of "0x2057" zeroed_instr]
        decode_instr_type_classes [of "0x0027" zeroed_instr]
        decode_instr_type_classes [of "0x7043" zeroed_instr]
        decode_instr_type_classes [of "0x0033" zeroed_instr]
  by simp

theorem decode_madd_not_invalid:
  "(0x43 :: u32) AND 0x7F \<noteq> 0x07 \<and> (0x43 :: u32) AND 0x7F \<noteq> 0x27 \<and>
   (0x43 :: u32) AND 0x7F \<noteq> 0x57 \<and>
   fdca_rvv_decode_instr_type 0x43 = FDCA_RVV_INSTR_VARITH \<and>
   fdca_rvv_decode_instr_type 0x43 \<noteq> FDCA_RVV_INSTR_INVALID \<and>
   fst (fdca_rvv_parse_instr 0x43 (Some zeroed_instr)) = Inr ()"
  by (simp add: fdca_rvv_decode_instr_type_def fdca_rvv_parse_instr_def Let_def
      RVV_OPCODE_MASK_def RVV_LOAD_FP_def RVV_STORE_FP_def RVV_MADD_def RVV_ARITH_def
      EXTRACT_FUNCT3_def)

section \<open>Descriptor validation\<close>

text \<open>
  C5, as the validator has it. The checks apply in this order. A register field
  \<open>vd\<close>, \<open>vs1\<close> or \<open>vs2\<close> of 32 or more gives \<open>-ERANGE\<close> (RangeError). Otherwise a
  memory instruction that uses the mask and has destination 0 gives \<open>-EINVAL\<close>
  (InvalidOperand); an arithmetic instruction of the reduce kind whose destination
  differs from its first source gives \<open>-EINVAL\<close>; a configuration instruction whose VL
  setting exceeds 1024 gives \<open>-ERANGE\<close>; a descriptor of any other class (atomic or
  invalid) gives \<open>-EINVAL\<close>; and every remaining descriptor is accepted.
\<close>

theorem validate_instr_outcome:
  "fdca_rvv_validate_instr (Some i) =
    (if 32 \<le> unat (vd i) \<or> 32 \<le> unat (vs1 i) \<or> 32 \<le> unat (vs2 i) then Inl ERANGE
     else if type i = FDCA_RVV_INSTR_VMEM \<and> uses_mask i \<and> vd i = 0 then Inl EINVAL
     else if type i = FDCA_RVV_INSTR_VARITH \<and>
             varith_type i = fdca_varith_type_val FDCA_VARITH_REDUCE \<and> vd i \<noteq> vs1 i
       then Inl EINVAL
     else if type i = FDCA_RVV_INSTR_VSETVLI \<and> 1024 < unat (vl_setting i) then Inl ERANGE
     else if type i = FDCA_RVV_INSTR_VAMO \<or> type i = FDCA_RVV_INSTR_INVALID then Inl EINVAL
     else Inr ())"
  by (cases "type i")
     (auto simp: fdca_rvv_validate_instr_def FDCA_RVV_NUM_VREGS_def word_less_nat_alt)

theorem validate_instr_outcome_witness:
  "fdca_rvv_validate_instr (Some instr_a) = Inr () \<and>
   fdca_rvv_validate_instr (Some (instr_a\<lparr>vs2 := 32\<rparr>)) = Inl ERANGE \<and>
   fdca_rvv_validate_instr
     (Some (instr_a\<lparr>type := FDCA_RVV_INSTR_VMEM, uses_mask := True, vd := 0\<rparr>)) = Inl EINVAL \<and>
   fdca_rvv_validate_instr (Some (instr_a\<lparr>type_union := 9\<rparr>)) = Inl EINVAL \<and>
   fdca_rvv_validate_instr
     (Some (instr_a\<lparr>type := FDCA_RVV_INSTR_VSETVLI, imm_union := 1025\<rparr>)) = Inl ERANGE"
  using validate_instr_outcome [of instr_a]
        validate_instr_outcome [of "instr_a\<lparr>vs2 := 32\<rparr>"]
        validate_instr_outcome
          [of "instr_a\<lparr>type := FDCA_RVV_INSTR_VMEM, uses_mask := True, vd := 0\<rparr>"]
        validate_instr_outcome [of "instr_a\<lparr>type_union := 9\<rparr>"]
        validate_instr_outcome
          [of "instr_a\<lparr>type := FDCA_RVV_INSTR_VSETVLI, imm_union := 1025\<rparr>"]
  by (simp add: instr_a_def zeroed_instr_def)

theorem validate_vamo_rejected:
  "unat (vd vamo_instr) < 32 \<and> unat (vs1 vamo_instr) < 32 \<and> unat (vs2 vamo_instr) < 32 \<and>
   \<not> (type vamo_instr = FDCA_RVV_INSTR_VMEM \<and> uses_mask vamo_instr \<and> vd vamo_instr = 0) \<and>
   \<not> (varith_type vamo_instr = fdca_varith_type_val FDCA_VARITH_REDUCE \<and>
      vd vamo_instr \<noteq> vs1 vamo_instr) \<and>
   \<not> (type vamo_instr = FDCA_RVV_INSTR_VSETVLI \<and> 1024 < unat (vl_setting vamo_instr)) \<and>
   fdca_rvv_validate_instr (Some vamo_instr) = Inl EINVAL \<and>
   fdca_rvv_validate_instr (Some vamo_instr) \<noteq> Inr ()"
  by (simp add: vamo_instr_def zeroed_instr_def fdca_rvv_validate_instr_def
      FDCA_RVV_NUM_VREGS_def)

section \<open>The mask flag of a parsed instruction\<close>

text \<open>
  C10. For every instruction word that the decoder classifies as VMEM or VARITH,
  \<open>fdca_rvv_parse_instr\<close> succeeds, and the descriptor's \<open>vm\<close> and \<open>uses_mask\<close> flags are
  both true exactly when bit 25 of the word is 0: the stored flag is the inverse of the
  encoded vm bit.
\<close>

theorem parse_instr_mask_flag:
  assumes "fdca_rvv_decode_instr_type opc = FDCA_RVV_INSTR_VMEM \<or>
           fdca_rvv_decode_instr_type opc = FDCA_RVV_INSTR_VARITH"
  shows "\<exists>i. fdca_rvv_parse_instr opc (Some i0) = (Inr (), Some i) \<and>
             type i = fdca_rvv_decode_instr_type opc \<and>
             (vm i \<longleftrightarrow> \<not> bit opc 25) \<and> (uses_mask i \<longleftrightarrow> \<not> bit opc 25)"
  using assms
  by (auto simp: fdca_rvv_parse_instr_def Let_def extract_vm_zero)

theorem parse_instr_mask_flag_witness:
  "fdca_rvv_decode_instr_type 0x02000007 = FDCA_RVV_INSTR_VMEM \<and>
   bit (0x02000007 :: u32) 25 \<and>
   (\<exists>i. fdca_rvv_parse_instr 0x02000007 (Some zeroed_instr) = (Inr (), Some i) \<and>
        \<not> vm i \<and> \<not> uses_mask i) \<and>
   fdca_rvv_decode_instr_type 0x00000057 = FDCA_RVV_INSTR_VARITH \<and>
   \<not> bit (0x00000057 :: u32) 25 \<and>
   (\<exists>i. fdca_rvv_parse_instr 0x00000057 (Some zeroed_instr) = (Inr (), Some i) \<and>
        vm i \<and> uses_mask i)"
proof -
  have m: "fdca_rvv_decode_instr_type 0x02000007 = FDCA_RVV_INSTR_VMEM"
    and a: "fdca_rvv_decode_instr_type 0x00000057 = FDCA_RVV_INSTR_VARITH"
    by (simp_all add: fdca_rvv_decode_instr_type_def Let_def RVV_OPCODE_MASK_def
        RVV_LOAD_FP_def RVV_STORE_FP_def RVV_MADD_def RVV_ARITH_def EXTRACT_FUNCT3_def)
  have b1: "bit (0x02000007 :: u32) 25" and b2: "\<not> bit (0x00000057 :: u32) 25"
    by simp_all
  from parse_instr_mask_flag [of "0x02000007" zeroed_instr] m b1
  have w1: "\<exists>i. fdca_rvv_parse_instr 0x02000007 (Some zeroed_instr) = (Inr (), Some i) \<and>
        \<not> vm i \<and> \<not> uses_mask i"
    by auto
  from parse_instr_mask_flag [of "0x00000057" zeroed_instr] a b2
  have w2: "\<exists>i. fdca_rvv_parse_instr 0x00000057 (Some zeroed_instr) = (Inr (), Some i) \<and>
        vm i \<and> uses_mask i"
    by auto
  from m a b1 b2 w1 w2 show ?thesis by simp
qed

section \<open>CSR validation\<close>

lemma unat_ucast_u32_u64:
  fixes w :: u32
  shows "unat (ucast w :: u64) = unat w"
  by transfer simp

lemma unat_max_vl:
  fixes n d :: u32
  shows "unat (ucast (n div d) :: u64) = unat n div unat d"
  by (simp add: unat_ucast_u32_u64 unat_div_distrib)

lemma csr_validate_ill:
  "vill (parsed c) \<Longrightarrow> fdca_rvv_csr_validate g (Some c) = Some (Inl EINVAL)"
  by (simp add: fdca_rvv_csr_validate_def)

lemma csr_validate_with_config:
  assumes "\<not> vill (parsed c)" and "hw_config mgr = Some cfg" and "sew_bits (parsed c) \<noteq> 0"
  shows "fdca_rvv_csr_validate (Some mgr) (Some c) =
        Some (if unat (vl c) > unat (vlen cfg) div unat (sew_bits (parsed c)) \<or>
                 unat (vstart c) > unat (vl c)
              then Inl ERANGE else Inr ())"
  using assms
  by (simp add: fdca_rvv_csr_validate_def Let_def word_less_nat_alt unat_max_vl)

lemma csr_validate_no_config:
  assumes "\<not> vill (parsed c)" and "g = None \<or> (g = Some mgr \<and> hw_config mgr = None)"
  shows "fdca_rvv_csr_validate g (Some c) =
        Some (if unat (vstart c) > unat (vl c) then Inl ERANGE else Inr ())"
  using assms
  by (auto simp: fdca_rvv_csr_validate_def word_less_nat_alt)

lemma raw_csr_fields:
  "vtype (raw_csr vt l s) = vt" "vl (raw_csr vt l s) = l" "vstart (raw_csr vt l s) = s"
  "parsed (raw_csr vt l s) = parsed zeroed_csr"
  by (simp_all add: raw_csr_def)

lemma parsed_0x10:
  "parsed (fdca_rvv_csr_parse_vtype (raw_csr 0x10 l s)) =
     \<lparr>vlmul = 0, vsew = 2, vta = False, vma = False, vill = False,
      sew_bits = 32, lmul_mul = 1, lmul_div = 1\<rparr>"
  "vl (fdca_rvv_csr_parse_vtype (raw_csr 0x10 l s)) = l"
  "vstart (fdca_rvv_csr_parse_vtype (raw_csr 0x10 l s)) = s"
proof -
  have nb: "\<not> bit (vtype (raw_csr 0x10 l s)) 63" by (simp add: raw_csr_fields)
  show "parsed (fdca_rvv_csr_parse_vtype (raw_csr 0x10 l s)) =
     \<lparr>vlmul = 0, vsew = 2, vta = False, vma = False, vill = False,
      sew_bits = 32, lmul_mul = 1, lmul_div = 1\<rparr>"
    by (simp add: parse_vtype_legal [OF nb] raw_csr_fields
        fdca_rvv_get_sew_bits_def fdca_rvv_get_lmul_fraction_def)
  show "vl (fdca_rvv_csr_parse_vtype (raw_csr 0x10 l s)) = l"
    by (simp add: parse_vtype_legal [OF nb] raw_csr_fields)
  show "vstart (fdca_rvv_csr_parse_vtype (raw_csr 0x10 l s)) = s"
    by (simp add: parse_vtype_legal [OF nb] raw_csr_fields)
qed

lemma parsed_ill:
  "vill (parsed (fdca_rvv_csr_parse_vtype (raw_csr 0x8000000000000000 l s)))"
proof -
  have b: "bit (vtype (raw_csr 0x8000000000000000 l s)) 63" by (simp add: raw_csr_fields)
  show ?thesis by (simp add: parse_vtype_ill [OF b])
qed

text \<open>
  C6, as the validator has it. A context whose parsed \<open>vill\<close> flag is set is rejected with
  \<open>-EINVAL\<close> (IllegalVtype). Otherwise, when the state manager and its hardware
  configuration are present and \<open>sew_bits\<close> is not 0, the context is rejected with
  \<open>-ERANGE\<close> (RangeError) when \<open>vl > vlen / sew_bits\<close> or \<open>vstart > vl\<close>, and accepted
  when \<open>vl \<le> vlen / sew_bits\<close> and \<open>vstart \<le> vl\<close>. When the manager or its hardware
  configuration is absent, the bound on \<open>vl\<close> is not checked: the context is rejected with
  \<open>-ERANGE\<close> when \<open>vstart > vl\<close> and accepted otherwise.
\<close>

theorem csr_validate_outcome:
  "(vill (parsed c) \<longrightarrow> fdca_rvv_csr_validate g (Some c) = Some (Inl EINVAL)) \<and>
   (\<not> vill (parsed c) \<and> g = Some mgr \<and> hw_config mgr = Some cfg \<and> sew_bits (parsed c) \<noteq> 0 \<longrightarrow>
      fdca_rvv_csr_validate g (Some c) =
        Some (if unat (vl c) > unat (vlen cfg) div unat (sew_bits (parsed c)) \<or>
                 unat (vstart c) > unat (vl c)
              then Inl ERANGE else Inr ())) \<and>
   (\<not> vill (parsed c) \<and> (g = None \<or> (g = Some mgr \<and> hw_config mgr = None)) \<longrightarrow>
      fdca_rvv_csr_validate g (Some c) =
        Some (if unat (vstart c) > unat (vl c) then Inl ERANGE else Inr ()))"
  using csr_validate_ill [of c g] csr_validate_with_config [of c mgr cfg]
    csr_validate_no_config [of c g mgr]
  by blast

theorem csr_validate_outcome_witness:
  "fdca_rvv_csr_validate (Some example_manager)
     (Some (fdca_rvv_csr_parse_vtype (raw_csr 0x8000000000000000 0 0))) = Some (Inl EINVAL) \<and>
   fdca_rvv_csr_validate (Some example_manager)
     (Some (fdca_rvv_csr_parse_vtype (raw_csr 0x10 32 0))) = Some (Inr ()) \<and>
   fdca_rvv_csr_validate (Some example_manager)
     (Some (fdca_rvv_csr_parse_vtype (raw_csr 0x10 33 0))) = Some (Inl ERANGE) \<and>
   fdca_rvv_csr_validate (Some example_manager)
     (Some (fdca_rvv_csr_parse_vtype (raw_csr 0x10 4 5))) = Some (Inl ERANGE) \<and>
   fdca_rvv_csr_validate None
     (Some (fdca_rvv_csr_parse_vtype (raw_csr 0x10 4 5))) = Some (Inl ERANGE)"
proof -
  have cfg: "hw_config example_manager = Some example_config" "vlen example_config = 1024"
    by (simp_all add: example_manager_def example_config_def)
  have a: "fdca_rvv_csr_validate (Some example_manager)
     (Some (fdca_rvv_csr_parse_vtype (raw_csr 0x8000000000000000 0 0))) = Some (Inl EINVAL)"
    using csr_validate_outcome
          [of "fdca_rvv_csr_parse_vtype (raw_csr 0x8000000000000000 0 0)"
              "Some example_manager" example_manager example_config]
    by (simp add: parsed_ill)
  have b: "fdca_rvv_csr_validate (Some example_manager)
     (Some (fdca_rvv_csr_parse_vtype (raw_csr 0x10 32 0))) = Some (Inr ())"
    using csr_validate_outcome
          [of "fdca_rvv_csr_parse_vtype (raw_csr 0x10 32 0)"
              "Some example_manager" example_manager example_config]
    by (simp add: parsed_0x10 cfg)
  have c: "fdca_rvv_csr_validate (Some example_manager)
     (Some (fdca_rvv_csr_parse_vtype (raw_csr 0x10 33 0))) = Some (Inl ERANGE)"
    using csr_validate_outcome
          [of "fdca_rvv_csr_parse_vtype (raw_csr 0x10 33 0)"
              "Some example_manager" example_manager example_config]
    by (simp add: parsed_0x10 cfg)
  have d: "fdca_rvv_csr_validate (Some example_manager)
     (Some (fdca_rvv_csr_parse_vtype (raw_csr 0x10 4 5))) = Some (Inl ERANGE)"
    using csr_validate_outcome
          [of "fdca_rvv_csr_parse_vtype (raw_csr 0x10 4 5)"
              "Some example_manager" example_manager example_config]
    by (simp add: parsed_0x10 cfg)
  have e: "fdca_rvv_csr_validate None
     (Some (fdca_rvv_csr_parse_vtype (raw_csr 0x10 4 5))) = Some (Inl ERANGE)"
    using csr_validate_outcome
          [of "fdca_rvv_csr_parse_vtype (raw_csr 0x10 4 5)" None example_manager example_config]
    by (simp add: parsed_0x10)
  from a b c d e show ?thesis by simp
qed

theorem csr_validate_without_manager:
  "\<not> vill (parsed (fdca_rvv_csr_parse_vtype (raw_csr 0x10 0x10000000000 0))) \<and>
   unat (vl (fdca_rvv_csr_parse_vtype (raw_csr 0x10 0x10000000000 0))) >
     unat (vlen example_config) div
       unat (sew_bits (parsed (fdca_rvv_csr_parse_vtype (raw_csr 0x10 0x10000000000 0)))) \<and>
   unat (vl (fdca_rvv_csr_parse_vtype (raw_csr 0x10 0x10000000000 0))) >
     unat (0xFFFFFFFF :: u32) div
       unat (sew_bits (parsed (fdca_rvv_csr_parse_vtype (raw_csr 0x10 0x10000000000 0)))) \<and>
   fdca_rvv_csr_validate None
     (Some (fdca_rvv_csr_parse_vtype (raw_csr 0x10 0x10000000000 0))) = Some (Inr ())"
  by (simp add: parsed_0x10 example_config_def fdca_rvv_csr_validate_def)

text \<open>
  A context that was never parsed has \<open>vill\<close> clear and \<open>sew_bits = 0\<close>. With the hardware
  configuration present, validation then divides by zero and has no result.
\<close>

lemma csr_validate_zero_sew_bits:
  "fdca_rvv_csr_validate (Some example_manager) (Some zeroed_csr) = None"
  by (simp add: fdca_rvv_csr_validate_def example_manager_def zeroed_csr_def)

section \<open>The register allocator\<close>

lemma find_first_zero_bit_free_regs:
  "find_first_zero_bit w FDCA_RVV_NUM_VREGS =
     (case free_regs w of [] \<Rightarrow> FDCA_RVV_NUM_VREGS | i # _ \<Rightarrow> i)"
  by (simp add: find_first_zero_bit_def free_regs_def)

lemma free_regs_bound: "i \<in> set (free_regs w) \<Longrightarrow> i < 32"
  by (simp add: free_regs_def FDCA_RVV_NUM_VREGS_def)

lemma distinct_free_regs: "distinct (free_regs w)"
  by (simp add: free_regs_def)

lemma length_free_regs: "length (free_regs w) \<le> 32"
proof -
  have "length (free_regs w) \<le> length [0..<FDCA_RVV_NUM_VREGS]"
    unfolding free_regs_def by (rule length_filter_le)
  then show ?thesis by (simp add: FDCA_RVV_NUM_VREGS_def)
qed

lemma free_regs_set_bit:
  assumes "free_regs w = r # rest"
  shows "free_regs (set_bit r w) = rest"
proof -
  have r: "r < 32" using assms free_regs_bound [of r w] by simp
  have d: "r \<notin> set rest" using distinct_free_regs [of w] assms by simp
  have "free_regs (set_bit r w) = filter (\<lambda>i. i \<noteq> r) (free_regs w)"
    unfolding free_regs_def filter_filter
    by (rule filter_cong) (auto simp: bit_set_bit_iff FDCA_RVV_NUM_VREGS_def)
  also have "\<dots> = filter (\<lambda>i. i \<noteq> r) rest" using assms by simp
  also have "\<dots> = rest" using d by (auto simp: filter_id_conv)
  finally show ?thesis .
qed

lemma free_regs_empty_iff: "free_regs w = [] \<longleftrightarrow> w = - 1"
proof
  assume e: "free_regs w = []"
  show "w = - 1"
  proof (rule bit_eqI)
    fix n
    assume "possible_bit TYPE(u32) n"
    then have n: "n < 32" by (simp add: possible_bit_def)
    with e have "bit w n"
      by (auto simp: free_regs_def filter_empty_conv FDCA_RVV_NUM_VREGS_def)
    with n show "bit w n \<longleftrightarrow> bit (- 1 :: u32) n" by simp
  qed
next
  assume "w = - 1"
  then show "free_regs w = []"
    by (auto simp: free_regs_def filter_empty_conv FDCA_RVV_NUM_VREGS_def)
qed

lemma filter_eq_upt: "r < n \<Longrightarrow> filter (\<lambda>i. i = r) [0..<n] = [r]"
  by (induction n) auto

lemma free_regs_unset_full:
  assumes "r < 32"
  shows "free_regs (unset_bit r (- 1)) = [r]"
proof -
  have "free_regs (unset_bit r (- 1)) = filter (\<lambda>i. i = r) [0..<32]"
    unfolding free_regs_def FDCA_RVV_NUM_VREGS_def
    by (rule filter_cong) (auto simp: bit_unset_bit_iff)
  with assms show ?thesis by (simp add: filter_eq_upt)
qed

lemma alloc_reg_cases:
  "fdca_vrf_alloc_reg (Some m) =
     (case free_regs (allocated_regs m) of
        [] \<Rightarrow> (Inl ENOSPC, Some m)
      | r # _ \<Rightarrow> (Inr r, Some (m\<lparr>allocated_regs := set_bit r (allocated_regs m),
                                  reg_allocations := reg_allocations m + 1\<rparr>)))"
proof (cases "free_regs (allocated_regs m)")
  case Nil
  then show ?thesis
    by (simp add: fdca_vrf_alloc_reg_def find_first_zero_bit_free_regs)
next
  case (Cons r rest)
  then have "r < FDCA_RVV_NUM_VREGS"
    using free_regs_bound [of r "allocated_regs m"] by (simp add: FDCA_RVV_NUM_VREGS_def)
  with Cons show ?thesis
    by (simp add: fdca_vrf_alloc_reg_def find_first_zero_bit_free_regs)
qed

lemma alloc_reg_free_count:
  "\<exists>m'. snd (fdca_vrf_alloc_reg (Some m)) = Some m' \<and>
        length (free_regs (allocated_regs m')) = length (free_regs (allocated_regs m)) - 1"
proof (cases "free_regs (allocated_regs m)")
  case Nil
  then show ?thesis by (simp add: alloc_reg_cases)
next
  case (Cons r rest)
  then show ?thesis by (simp add: alloc_reg_cases free_regs_set_bit)
qed

lemma alloc_times_free_count:
  "\<exists>m'. alloc_times k (Some m) = Some m' \<and>
        length (free_regs (allocated_regs m')) = length (free_regs (allocated_regs m)) - k"
proof (induction k arbitrary: m)
  case 0
  then show ?case by simp
next
  case (Suc k)
  obtain m1 where m1: "snd (fdca_vrf_alloc_reg (Some m)) = Some m1"
    and l1: "length (free_regs (allocated_regs m1)) =
             length (free_regs (allocated_regs m)) - 1"
    using alloc_reg_free_count [of m] by blast
  obtain m' where "alloc_times k (Some m1) = Some m'"
    and "length (free_regs (allocated_regs m')) = length (free_regs (allocated_regs m1)) - k"
    using Suc.IH [of m1] by blast
  with m1 l1 show ?case by simp
qed

lemma alloc_times_32_full:
  "\<exists>m'. alloc_times 32 (Some m) = Some m' \<and> allocated_regs m' = - 1"
proof -
  obtain m' where a: "alloc_times 32 (Some m) = Some m'"
    and "length (free_regs (allocated_regs m')) = length (free_regs (allocated_regs m)) - 32"
    using alloc_times_free_count [of 32 m] by blast
  with length_free_regs [of "allocated_regs m"] have "free_regs (allocated_regs m') = []"
    by simp
  with a show ?thesis by (simp add: free_regs_empty_iff)
qed

lemma alloc_full:
  "allocated_regs m = - 1 \<Longrightarrow> fdca_vrf_alloc_reg (Some m) = (Inl ENOSPC, Some m)"
  using free_regs_empty_iff [of "allocated_regs m"] by (simp add: alloc_reg_cases)

lemma free_then_alloc_full:
  assumes "allocated_regs m = - 1" and "0 \<le> r" and "r < 32"
  shows "\<exists>m1 m2. fdca_vrf_free_reg (Some m) r = Some m1 \<and>
           allocated_regs m1 = unset_bit (nat r) (- 1) \<and> \<not> bit (allocated_regs m1) (nat r) \<and>
           fdca_vrf_alloc_reg (Some m1) = (Inr (nat r), Some m2) \<and>
           allocated_regs m2 = - 1"
proof -
  from assms have n: "nat r < 32" by simp
  define m1 where "m1 = m\<lparr>allocated_regs := unset_bit (nat r) (allocated_regs m),
                          reg_frees := reg_frees m + 1\<rparr>"
  from assms n have f: "fdca_vrf_free_reg (Some m) r = Some m1"
    by (simp add: fdca_vrf_free_reg_def FDCA_RVV_NUM_VREGS_def m1_def)
  have a1: "allocated_regs m1 = unset_bit (nat r) (- 1)"
    using assms by (simp add: m1_def)
  then have fr: "free_regs (allocated_regs m1) = [nat r]"
    using n by (simp add: free_regs_unset_full)
  define m2 where "m2 = m1\<lparr>allocated_regs := set_bit (nat r) (allocated_regs m1),
                           reg_allocations := reg_allocations m1 + 1\<rparr>"
  from fr have al: "fdca_vrf_alloc_reg (Some m1) = (Inr (nat r), Some m2)"
    by (simp add: alloc_reg_cases m2_def)
  from fr have "free_regs (set_bit (nat r) (allocated_regs m1)) = []"
    by (rule free_regs_set_bit)
  then have full: "allocated_regs m2 = - 1"
    by (simp add: m2_def free_regs_empty_iff)
  have nb: "\<not> bit (allocated_regs m1) (nat r)"
    by (simp add: a1 bit_unset_bit_iff)
  from f a1 nb al full show ?thesis by blast
qed

text \<open>
  C9. From any state of the 32-entry bitmap allocator, 32 calls of \<open>fdca_vrf_alloc_reg\<close>
  leave all 32 register indices taken. In that state (as in any state with all 32 taken)
  one more call fails with \<open>-ENOSPC\<close> (NoCapacity) and changes nothing. After
  \<open>fdca_vrf_free_reg\<close> of any one register \<open>r\<close> of the 32, that index is free and the
  next call succeeds and returns it, which takes all 32 again.
\<close>

theorem vrf_alloc_exhaustion:
  "(\<exists>full. alloc_times 32 (Some m) = Some full \<and> allocated_regs full = - 1 \<and>
       fdca_vrf_alloc_reg (Some full) = (Inl ENOSPC, Some full) \<and>
       (0 \<le> r \<and> r < 32 \<longrightarrow>
          (\<exists>m1 m2. fdca_vrf_free_reg (Some full) r = Some m1 \<and>
             \<not> bit (allocated_regs m1) (nat r) \<and>
             fdca_vrf_alloc_reg (Some m1) = (Inr (nat r), Some m2) \<and>
             allocated_regs m2 = - 1))) \<and>
   (allocated_regs m = - 1 \<longrightarrow> fdca_vrf_alloc_reg (Some m) = (Inl ENOSPC, Some m))"
proof -
  obtain full where a: "alloc_times 32 (Some m) = Some full"
    and f: "allocated_regs full = - 1"
    using alloc_times_32_full [of m] by blast
  have b: "fdca_vrf_alloc_reg (Some full) = (Inl ENOSPC, Some full)"
    using f by (rule alloc_full)
  have c: "0 \<le> r \<and> r < 32 \<longrightarrow>
          (\<exists>m1 m2. fdca_vrf_free_reg (Some full) r = Some m1 \<and>
             \<not> bit (allocated_regs m1) (nat r) \<and>
             fdca_vrf_alloc_reg (Some m1) = (Inr (nat r), Some m2) \<and>
             allocated_regs m2 = - 1)"
    using free_then_alloc_full [OF f, of r] by blast
  have d: "allocated_regs m = - 1 \<longrightarrow> fdca_vrf_alloc_reg (Some m) = (Inl ENOSPC, Some m)"
    by (simp add: alloc_full)
  from a f b c d show ?thesis by blast
qed

theorem vrf_alloc_exhaustion_witness:
  "\<exists>full. alloc_times 32 (Some fresh_vrf_manager) = Some full \<and> allocated_regs full = - 1 \<and>
       fdca_vrf_alloc_reg (Some full) = (Inl ENOSPC, Some full) \<and>
       (\<exists>m1 m2. fdca_vrf_free_reg (Some full) 7 = Some m1 \<and>
             \<not> bit (allocated_regs m1) 7 \<and>
             fdca_vrf_alloc_reg (Some m1) = (Inr 7, Some m2) \<and>
             allocated_regs m2 = - 1)"
  using vrf_alloc_exhaustion [of fresh_vrf_manager 7] by simp

lemma alloc_fresh_first:
  "fdca_vrf_alloc_reg (Some fresh_vrf_manager) =
     (Inr 0, Some (fresh_vrf_manager\<lparr>allocated_regs := 1, reg_allocations := 1\<rparr>))"
  by (simp add: fdca_vrf_alloc_reg_def find_first_zero_bit_def fresh_vrf_manager_def
      FDCA_RVV_NUM_VREGS_def upt_conv_Cons)

section \<open>Vector memory operations with no elements\<close>

lemma prepare_dma_zero:
  assumes "num_elements op = 0" and "op_type op \<noteq> FDCA_VMEM_WHOLE_REG"
  shows "fdca_vector_mem_prepare_dma op hw =
     (case (case alloc_results hw of [] \<Rightarrow> None | x # _ \<Rightarrow> x) of
        None \<Rightarrow> (Inl ENOMEM, op\<lparr>total_size := 0, cpu_addr := None\<rparr>,
                  hw\<lparr>alloc_results := tl (alloc_results hw),
                     trace := trace hw @ [DMA_ALLOC 0]\<rparr>)
      | Some (cpu, dev) \<Rightarrow>
          (Inr (), op\<lparr>total_size := 0, cpu_addr := Some cpu, dma_addr := dev\<rparr>,
           hw\<lparr>alloc_results := tl (alloc_results hw), trace := trace hw @ [DMA_ALLOC 0]\<rparr>))"
  using assms
  by (cases "op_type op")
     (auto simp: fdca_vector_mem_prepare_dma_def Let_def dma_alloc_coherent_def
           split: list.splits option.splits)

lemma kick_off_traces:
  "\<exists>es. trace (snd (fdca_vector_mem_unit_stride op hw)) = trace hw @ es"
  "\<exists>es. trace (snd (fdca_vector_mem_strided op hw)) = trace hw @ es"
  "\<exists>es. trace (snd (fdca_vector_mem_segment op hw)) = trace hw @ es"
  by (simp_all add: fdca_vector_mem_unit_stride_def fdca_vector_mem_strided_def
      fdca_vector_mem_segment_def iowrite32_def iowrite64_def Let_def)

lemma indexed_trace:
  "fdca_vector_mem_indexed op hw = Some (r, hw') \<Longrightarrow> \<exists>es. trace hw' = trace hw @ es"
  by (auto simp: fdca_vector_mem_indexed_def Let_def dma_alloc_coherent_def
      dma_free_coherent_def iowrite32_def iowrite64_def
      split: list.splits option.splits if_splits prod.splits)

lemma wait_completion_trace:
  "fdca_vector_mem_wait_completion hw = Some (r, hw') \<Longrightarrow> trace hw' = trace hw"
  by (auto simp: fdca_vector_mem_wait_completion_def split: option.splits)

lemma cleanup_dma_trace:
  "\<exists>es. trace (snd (fdca_vector_mem_cleanup_dma op hw)) = trace hw @ es"
  by (auto simp: fdca_vector_mem_cleanup_dma_def dma_free_coherent_def split: option.splits)


lemma finish_trace:
  assumes "(case kick of
              None \<Rightarrow> None
            | Some (Inl e, hw2) \<Rightarrow>
                (let (op2, hw3) = fdca_vector_mem_cleanup_dma op1 hw2
                 in Some (Inl e, Some op2, hw3))
            | Some (Inr u, hw2) \<Rightarrow>
                (case fdca_vector_mem_wait_completion hw2 of
                   None \<Rightarrow> None
                 | Some (r, hw3) \<Rightarrow>
                     (let (op2, hw4) = fdca_vector_mem_cleanup_dma op1 hw3
                      in Some (r, Some op2, hw4)))) = Some (r', op', hw')"
    and "\<And>rk hw2. kick = Some (rk, hw2) \<Longrightarrow> \<exists>es. trace hw2 = trace hw1 @ es"
  shows "\<exists>es. trace hw' = trace hw1 @ es"
proof -
  from assms(1) obtain rk hw2 where k: "kick = Some (rk, hw2)"
    by (cases kick) auto
  then obtain e1 where e1: "trace hw2 = trace hw1 @ e1"
    using assms(2) by blast
  show ?thesis
  proof (cases rk)
    case (Inl e)
    with assms(1) k have "hw' = snd (fdca_vector_mem_cleanup_dma op1 hw2)"
      by (auto split: prod.splits)
    with cleanup_dma_trace [of op1 hw2] e1 show ?thesis by auto
  next
    case (Inr u)
    with assms(1) k obtain r hw3 where w: "fdca_vector_mem_wait_completion hw2 = Some (r, hw3)"
      and h: "hw' = snd (fdca_vector_mem_cleanup_dma op1 hw3)"
      by (auto split: option.splits prod.splits)
    from w have "trace hw3 = trace hw2" by (rule wait_completion_trace)
    with h cleanup_dma_trace [of op1 hw3] e1 show ?thesis by auto
  qed
qed

lemma execute_trace_extends:
  assumes ex: "fdca_vector_mem_execute (Some dev) (Some op) hw = Some (r, op', hw')"
    and pr: "vpu_present dev"
    and pd: "fdca_vector_mem_prepare_dma op hw = (r1, op1, hw1)"
  shows "\<exists>es. trace hw' = trace hw1 @ es"
proof (cases r1)
  case (Inl e)
  with ex pr pd have "hw' = hw1"
    by (simp add: fdca_vector_mem_execute_def)
  then show ?thesis by simp
next
  case (Inr u)
  define kick where "kick =
     (case op_type op1 of
        FDCA_VMEM_UNIT_STRIDE \<Rightarrow> Some (fdca_vector_mem_unit_stride op1 hw1)
      | FDCA_VMEM_STRIDED \<Rightarrow> Some (fdca_vector_mem_strided op1 hw1)
      | FDCA_VMEM_INDEXED \<Rightarrow> fdca_vector_mem_indexed op1 hw1
      | FDCA_VMEM_SEGMENT \<Rightarrow> Some (fdca_vector_mem_segment op1 hw1)
      | _ \<Rightarrow> Some (Inl EINVAL, hw1))"
  have kt: "\<exists>es. trace hw2 = trace hw1 @ es" if "kick = Some (rk, hw2)" for rk hw2
  proof (cases "op_type op1")
    case FDCA_VMEM_UNIT_STRIDE
    with that kick_off_traces(1) [of op1 hw1] show ?thesis
      by (auto simp: kick_def)
  next
    case FDCA_VMEM_STRIDED
    with that kick_off_traces(2) [of op1 hw1] show ?thesis
      by (auto simp: kick_def)
  next
    case FDCA_VMEM_INDEXED
    with that indexed_trace [of op1 hw1 rk hw2] show ?thesis
      by (simp add: kick_def)
  next
    case FDCA_VMEM_SEGMENT
    with that kick_off_traces(3) [of op1 hw1] show ?thesis
      by (auto simp: kick_def)
  next
    case FDCA_VMEM_WHOLE_REG
    with that show ?thesis by (simp add: kick_def)
  qed
  from ex pr pd Inr have
    "(case kick of
              None \<Rightarrow> None
            | Some (Inl e, hw2) \<Rightarrow>
                (let (op2, hw3) = fdca_vector_mem_cleanup_dma op1 hw2
                 in Some (Inl e, Some op2, hw3))
            | Some (Inr u, hw2) \<Rightarrow>
                (case fdca_vector_mem_wait_completion hw2 of
                   None \<Rightarrow> None
                 | Some (r, hw3) \<Rightarrow>
                     (let (op2, hw4) = fdca_vector_mem_cleanup_dma op1 hw3
                      in Some (r, Some op2, hw4)))) = Some (r, op', hw')"
    by (simp add: fdca_vector_mem_execute_def kick_def)
  then show ?thesis using kt by (rule finish_trace)
qed


lemma poll_status_decisive:
  "\<exists>x\<in>set script. fst x AND 1 \<noteq> 0 \<or> snd x \<Longrightarrow> poll_status script \<noteq> None"
  by (induction script rule: poll_status.induct) auto

lemma execute_null:
  "fdca_vector_mem_execute None pop hw = Some (Inl EINVAL, pop, hw)"
  "fdca_vector_mem_execute fdev None hw = Some (Inl EINVAL, None, hw)"
  by (simp_all add: fdca_vector_mem_execute_def split: option.splits)

lemma execute_zero_unit_stride:
  assumes "num_elements op = 0" and "vpu_present dev"
    and "op_type op = FDCA_VMEM_UNIT_STRIDE"
    and "alloc_results hw = Some (cpu, d) # rs"
  shows "fdca_vector_mem_execute (Some dev) (Some op) hw =
     (case poll_status (status_reads hw) of
        None \<Rightarrow> None
      | Some (r, rest) \<Rightarrow>
          Some (r, Some (op\<lparr>total_size := 0, cpu_addr := None, dma_addr := d\<rparr>),
                hw\<lparr>alloc_results := rs, status_reads := rest,
                   trace := trace hw @
                     [DMA_ALLOC 0, IOWRITE64 0x100 (base_addr op), IOWRITE32 0x108 0,
                      IOWRITE32 0x10C (element_size op), IOWRITE64 0x110 d,
                      IOWRITE32 0x118 (ctrl_reg_of (is_load op) FDCA_VMEM_UNIT_STRIDE),
                      IOWRITE32 0x11C 1, DMA_FREE 0]\<rparr>))"
  using assms
  by (simp add: fdca_vector_mem_execute_def prepare_dma_zero
        fdca_vector_mem_unit_stride_def fdca_vector_mem_wait_completion_def
        iowrite32_def iowrite64_def fdca_vector_mem_cleanup_dma_def dma_free_coherent_def
      split: option.splits prod.splits)

lemma execute_zero_strided:
  assumes "num_elements op = 0" and "vpu_present dev"
    and "op_type op = FDCA_VMEM_STRIDED"
    and "alloc_results hw = Some (cpu, d) # rs"
  shows "fdca_vector_mem_execute (Some dev) (Some op) hw =
     (case poll_status (status_reads hw) of
        None \<Rightarrow> None
      | Some (r, rest) \<Rightarrow>
          Some (r, Some (op\<lparr>total_size := 0, cpu_addr := None, dma_addr := d\<rparr>),
                hw\<lparr>alloc_results := rs, status_reads := rest,
                   trace := trace hw @
                     [DMA_ALLOC 0, IOWRITE64 0x120 (base_addr op), IOWRITE32 0x128 (stride op),
                      IOWRITE32 0x12C 0, IOWRITE32 0x130 (element_size op),
                      IOWRITE64 0x134 d,
                      IOWRITE32 0x138 (ctrl_reg_of (is_load op) FDCA_VMEM_STRIDED),
                      IOWRITE32 0x13C 1, DMA_FREE 0]\<rparr>))"
  using assms
  by (simp add: fdca_vector_mem_execute_def prepare_dma_zero
        fdca_vector_mem_strided_def fdca_vector_mem_wait_completion_def
        iowrite32_def iowrite64_def fdca_vector_mem_cleanup_dma_def dma_free_coherent_def
      split: option.splits prod.splits)

lemma execute_zero_segment:
  assumes "num_elements op = 0" and "vpu_present dev"
    and "op_type op = FDCA_VMEM_SEGMENT"
    and "alloc_results hw = Some (cpu, d) # rs"
  shows "fdca_vector_mem_execute (Some dev) (Some op) hw =
     (case poll_status (status_reads hw) of
        None \<Rightarrow> None
      | Some (r, rest) \<Rightarrow>
          Some (r, Some (op\<lparr>total_size := 0, cpu_addr := None, dma_addr := d\<rparr>),
                hw\<lparr>alloc_results := rs, status_reads := rest,
                   trace := trace hw @
                     [DMA_ALLOC 0, IOWRITE64 0x180 (base_addr op), IOWRITE32 0x188 (stride op),
                      IOWRITE32 0x18C 0, IOWRITE32 0x190 (element_size op),
                      IOWRITE64 0x194 d,
                      IOWRITE32 0x198 (ctrl_reg_of (is_load op) FDCA_VMEM_SEGMENT),
                      IOWRITE32 0x19C 1, DMA_FREE 0]\<rparr>))"
  using assms
  by (simp add: fdca_vector_mem_execute_def prepare_dma_zero
        fdca_vector_mem_segment_def fdca_vector_mem_wait_completion_def
        iowrite32_def iowrite64_def fdca_vector_mem_cleanup_dma_def dma_free_coherent_def
      split: option.splits prod.splits)

lemma execute_zero_indexed_no_memory:
  assumes "num_elements op = 0" and "vpu_present dev"
    and "op_type op = FDCA_VMEM_INDEXED"
    and "alloc_results hw = Some (cpu, d) # rs" and "rs = [] \<or> hd rs = None"
  shows "fdca_vector_mem_execute (Some dev) (Some op) hw =
     Some (Inl ENOMEM, Some (op\<lparr>total_size := 0, cpu_addr := None, dma_addr := d\<rparr>),
           hw\<lparr>alloc_results := tl rs,
              trace := trace hw @ [DMA_ALLOC 0, DMA_ALLOC 0, DMA_FREE 0]\<rparr>)"
  using assms
  by (auto simp: fdca_vector_mem_execute_def prepare_dma_zero
        fdca_vector_mem_indexed_def dma_alloc_coherent_def
        fdca_vector_mem_cleanup_dma_def dma_free_coherent_def
      split: option.splits prod.splits list.splits)

lemma execute_zero_indexed:
  assumes "num_elements op = 0" and "vpu_present dev"
    and "op_type op = FDCA_VMEM_INDEXED"
    and "alloc_results hw = Some (cpu, d) # Some (icpu, idma) # rs"
  shows "fdca_vector_mem_execute (Some dev) (Some op) hw =
     (case poll_status (status_reads hw) of
        None \<Rightarrow> None
      | Some (r, rest) \<Rightarrow>
          Some (r, Some (op\<lparr>total_size := 0, cpu_addr := None, dma_addr := d\<rparr>),
                hw\<lparr>alloc_results := rs, status_reads := rest,
                   trace := trace hw @
                     [DMA_ALLOC 0, DMA_ALLOC 0, IOWRITE64 0x140 (base_addr op),
                      IOWRITE64 0x148 idma, IOWRITE32 0x150 0,
                      IOWRITE32 0x154 (element_size op), IOWRITE64 0x158 d,
                      IOWRITE32 0x160 (ctrl_reg_of (is_load op) FDCA_VMEM_INDEXED),
                      IOWRITE32 0x164 1, DMA_FREE 0, DMA_FREE 0]\<rparr>))"
  using assms
  by (simp add: fdca_vector_mem_execute_def prepare_dma_zero
        fdca_vector_mem_indexed_def dma_alloc_coherent_def
        fdca_vector_mem_wait_completion_def
        iowrite32_def iowrite64_def fdca_vector_mem_cleanup_dma_def dma_free_coherent_def
      split: option.splits prod.splits)


lemma execute_zero_returns_all:
  assumes n: "num_elements op = 0" and p: "vpu_present dev"
    and s: "\<exists>x\<in>set (status_reads hw). fst x AND 1 \<noteq> 0 \<or> snd x"
  shows "fdca_vector_mem_execute (Some dev) (Some op) hw \<noteq> None"
proof -
  from s have "poll_status (status_reads hw) \<noteq> None"
    by (rule poll_status_decisive)
  then obtain r rest where ps: "poll_status (status_reads hw) = Some (r, rest)"
    by (cases "poll_status (status_reads hw)") auto
  show ?thesis
  proof (cases "alloc_results hw = [] \<or> hd (alloc_results hw) = None")
    case True
    show ?thesis
    proof (cases "op_type op = FDCA_VMEM_WHOLE_REG")
      case True
      with p show ?thesis
        by (simp add: fdca_vector_mem_execute_def fdca_vector_mem_prepare_dma_def)
    next
      case False
      with True p prepare_dma_zero [OF n False, of hw] show ?thesis
        by (auto simp: fdca_vector_mem_execute_def split: list.splits)
    qed
  next
    case False
    then obtain cpu d rs where ar: "alloc_results hw = Some (cpu, d) # rs"
      by (cases "alloc_results hw") auto
    show ?thesis
    proof (cases "op_type op")
      case FDCA_VMEM_UNIT_STRIDE
      with ps show ?thesis by (simp add: execute_zero_unit_stride [OF n p _ ar])
    next
      case FDCA_VMEM_STRIDED
      with ps show ?thesis by (simp add: execute_zero_strided [OF n p _ ar])
    next
      case FDCA_VMEM_INDEXED
      show ?thesis
      proof (cases "rs = [] \<or> hd rs = None")
        case True
        then show ?thesis
          by (simp add: execute_zero_indexed_no_memory [OF n p FDCA_VMEM_INDEXED ar])
      next
        case False
        then obtain icpu idma rs' where "rs = Some (icpu, idma) # rs'"
          by (cases rs) auto
        with ar have "alloc_results hw = Some (cpu, d) # Some (icpu, idma) # rs'" by simp
        with ps show ?thesis
          by (simp add: execute_zero_indexed [OF n p FDCA_VMEM_INDEXED])
      qed
    next
      case FDCA_VMEM_SEGMENT
      with ps show ?thesis by (simp add: execute_zero_segment [OF n p _ ar])
    next
      case FDCA_VMEM_WHOLE_REG
      with p show ?thesis
        by (simp add: fdca_vector_mem_execute_def fdca_vector_mem_prepare_dma_def)
    qed
  qed
qed

text \<open>
  C7, as the code has it. \<open>fdca_vector_mem_execute\<close> does not look at the element count.
  For a descriptor with \<open>num_elements = 0\<close> it returns an error without calling the DMA
  allocator only when the device or the descriptor is NULL (\<open>-EINVAL\<close>), the vector unit
  is absent (\<open>-ENODEV\<close>) or the addressing mode is whole-register (\<open>-EINVAL\<close>). With the
  unit present and one of the four supported modes, the first thing it does is call the
  DMA allocator for a staging buffer of 0 bytes. When the allocator answers NULL the call
  returns \<open>-ENOMEM\<close> right after the request. When the allocator hands out a buffer, the
  call programs the registers of the mode (base address, stride or field count, an
  element count of 0, element size, DMA address, control word, start bit), polls the
  status register, frees the buffer and returns what the poll gave; the indexed mode
  first requests a second buffer of 0 bytes for the index array, returns \<open>-ENOMEM\<close> after
  freeing the staging buffer when that request fails, and otherwise frees the index buffer
  after the start bit. In every mode the call returns once the status register shows
  completion or the deadline passes.
\<close>

theorem execute_zero_elements:
  assumes "num_elements op = 0"
  shows
  "fdca_vector_mem_execute None (Some op) hw = Some (Inl EINVAL, Some op, hw) \<and>
   fdca_vector_mem_execute fdev None hw = Some (Inl EINVAL, None, hw) \<and>
   (\<not> vpu_present dev \<longrightarrow>
      fdca_vector_mem_execute (Some dev) (Some op) hw = Some (Inl ENODEV, Some op, hw)) \<and>
   (vpu_present dev \<and> op_type op = FDCA_VMEM_WHOLE_REG \<longrightarrow>
      fdca_vector_mem_execute (Some dev) (Some op) hw = Some (Inl EINVAL, Some op, hw)) \<and>
   (vpu_present dev \<and> op_type op \<noteq> FDCA_VMEM_WHOLE_REG \<longrightarrow>
      (\<forall>r op' hw'. fdca_vector_mem_execute (Some dev) (Some op) hw = Some (r, op', hw') \<longrightarrow>
         (\<exists>es. trace hw' = trace hw @ DMA_ALLOC 0 # es)) \<and>
      (alloc_results hw = [] \<or> hd (alloc_results hw) = None \<longrightarrow>
         fdca_vector_mem_execute (Some dev) (Some op) hw =
           Some (Inl ENOMEM, Some (op\<lparr>total_size := 0, cpu_addr := None\<rparr>),
                 hw\<lparr>alloc_results := tl (alloc_results hw),
                    trace := trace hw @ [DMA_ALLOC 0]\<rparr>))) \<and>
   (vpu_present dev \<and> (\<exists>x\<in>set (status_reads hw). fst x AND 1 \<noteq> 0 \<or> snd x) \<longrightarrow>
      fdca_vector_mem_execute (Some dev) (Some op) hw \<noteq> None) \<and>
   (vpu_present dev \<and> alloc_results hw = Some (cpu, d) # rs \<longrightarrow>
      (op_type op = FDCA_VMEM_UNIT_STRIDE \<longrightarrow>
         fdca_vector_mem_execute (Some dev) (Some op) hw =
           (case poll_status (status_reads hw) of
              None \<Rightarrow> None
            | Some (r, rest) \<Rightarrow>
                Some (r, Some (op\<lparr>total_size := 0, cpu_addr := None, dma_addr := d\<rparr>),
                      hw\<lparr>alloc_results := rs, status_reads := rest,
                         trace := trace hw @
                           [DMA_ALLOC 0, IOWRITE64 0x100 (base_addr op), IOWRITE32 0x108 0,
                            IOWRITE32 0x10C (element_size op), IOWRITE64 0x110 d,
                            IOWRITE32 0x118 (ctrl_reg_of (is_load op) FDCA_VMEM_UNIT_STRIDE),
                            IOWRITE32 0x11C 1, DMA_FREE 0]\<rparr>))) \<and>
      (op_type op = FDCA_VMEM_STRIDED \<longrightarrow>
         fdca_vector_mem_execute (Some dev) (Some op) hw =
           (case poll_status (status_reads hw) of
              None \<Rightarrow> None
            | Some (r, rest) \<Rightarrow>
                Some (r, Some (op\<lparr>total_size := 0, cpu_addr := None, dma_addr := d\<rparr>),
                      hw\<lparr>alloc_results := rs, status_reads := rest,
                         trace := trace hw @
                           [DMA_ALLOC 0, IOWRITE64 0x120 (base_addr op),
                            IOWRITE32 0x128 (stride op), IOWRITE32 0x12C 0,
                            IOWRITE32 0x130 (element_size op), IOWRITE64 0x134 d,
                            IOWRITE32 0x138 (ctrl_reg_of (is_load op) FDCA_VMEM_STRIDED),
                            IOWRITE32 0x13C 1, DMA_FREE 0]\<rparr>))) \<and>
      (op_type op = FDCA_VMEM_SEGMENT \<longrightarrow>
         fdca_vector_mem_execute (Some dev) (Some op) hw =
           (case poll_status (status_reads hw) of
              None \<Rightarrow> None
            | Some (r, rest) \<Rightarrow>
                Some (r, Some (op\<lparr>total_size := 0, cpu_addr := None, dma_addr := d\<rparr>),
                      hw\<lparr>alloc_results := rs, status_reads := rest,
                         trace := trace hw @
                           [DMA_ALLOC 0, IOWRITE64 0x180 (base_addr op),
                            IOWRITE32 0x188 (stride op), IOWRITE32 0x18C 0,
                            IOWRITE32 0x190 (element_size op), IOWRITE64 0x194 d,
                            IOWRITE32 0x198 (ctrl_reg_of (is_load op) FDCA_VMEM_SEGMENT),
                            IOWRITE32 0x19C 1, DMA_FREE 0]\<rparr>))) \<and>
      (op_type op = FDCA_VMEM_INDEXED \<and> (rs = [] \<or> hd rs = None) \<longrightarrow>
         fdca_vector_mem_execute (Some dev) (Some op) hw =
           Some (Inl ENOMEM, Some (op\<lparr>total_size := 0, cpu_addr := None, dma_addr := d\<rparr>),
                 hw\<lparr>alloc_results := tl rs,
                    trace := trace hw @ [DMA_ALLOC 0, DMA_ALLOC 0, DMA_FREE 0]\<rparr>)) \<and>
      (op_type op = FDCA_VMEM_INDEXED \<and> rs = Some (icpu, idma) # rs' \<longrightarrow>
         fdca_vector_mem_execute (Some dev) (Some op) hw =
           (case poll_status (status_reads hw) of
              None \<Rightarrow> None
            | Some (r, rest) \<Rightarrow>
                Some (r, Some (op\<lparr>total_size := 0, cpu_addr := None, dma_addr := d\<rparr>),
                      hw\<lparr>alloc_results := rs', status_reads := rest,
                         trace := trace hw @
                           [DMA_ALLOC 0, DMA_ALLOC 0, IOWRITE64 0x140 (base_addr op),
                            IOWRITE64 0x148 idma, IOWRITE32 0x150 0,
                            IOWRITE32 0x154 (element_size op), IOWRITE64 0x158 d,
                            IOWRITE32 0x160 (ctrl_reg_of (is_load op) FDCA_VMEM_INDEXED),
                            IOWRITE32 0x164 1, DMA_FREE 0, DMA_FREE 0]\<rparr>))))"
  (is "?n1 \<and> ?n2 \<and> ?a \<and> ?b \<and> ?c \<and> ?e \<and> ?f")
proof -
  have n1: ?n1 and n2: ?n2
    by (simp_all add: execute_null)
  have a: ?a
    by (simp add: fdca_vector_mem_execute_def)
  have b: ?b
    by (simp add: fdca_vector_mem_execute_def fdca_vector_mem_prepare_dma_def)
  have c1: "\<exists>es. trace hw' = trace hw @ DMA_ALLOC 0 # es"
    if pr: "vpu_present dev" and nw: "op_type op \<noteq> FDCA_VMEM_WHOLE_REG"
      and ex: "fdca_vector_mem_execute (Some dev) (Some op) hw = Some (r, op', hw')"
    for r op' hw'
  proof -
    obtain r1 op1 hw1 where pd: "fdca_vector_mem_prepare_dma op hw = (r1, op1, hw1)"
      by (cases "fdca_vector_mem_prepare_dma op hw") auto
    with prepare_dma_zero [OF assms nw, of hw]
    have t1: "trace hw1 = trace hw @ [DMA_ALLOC 0]"
      by (auto split: list.splits option.splits)
    from execute_trace_extends [OF ex pr pd] obtain es where "trace hw' = trace hw1 @ es"
      by blast
    with t1 show ?thesis by simp
  qed
  have c2: "fdca_vector_mem_execute (Some dev) (Some op) hw =
           Some (Inl ENOMEM, Some (op\<lparr>total_size := 0, cpu_addr := None\<rparr>),
                 hw\<lparr>alloc_results := tl (alloc_results hw),
                    trace := trace hw @ [DMA_ALLOC 0]\<rparr>)"
    if "vpu_present dev" and nw: "op_type op \<noteq> FDCA_VMEM_WHOLE_REG"
      and "alloc_results hw = [] \<or> hd (alloc_results hw) = None"
    using that prepare_dma_zero [OF assms nw, of hw]
    by (auto simp: fdca_vector_mem_execute_def split: list.splits)
  from c1 c2 have c: ?c by blast
  have e: ?e
    using execute_zero_returns_all [OF assms] by blast
  have f: ?f
    using execute_zero_unit_stride [OF assms, of dev hw cpu d rs]
      execute_zero_strided [OF assms, of dev hw cpu d rs]
      execute_zero_segment [OF assms, of dev hw cpu d rs]
      execute_zero_indexed_no_memory [OF assms, of dev hw cpu d rs]
      execute_zero_indexed [OF assms, of dev hw cpu d icpu idma rs']
    by blast
  from n1 n2 a b c e f show ?thesis by blast
qed

theorem execute_zero_elements_witness:
  "num_elements zero_elements_op = 0 \<and>
   fdca_vector_mem_execute None (Some zero_elements_op) hw_completing =
     Some (Inl EINVAL, Some zero_elements_op, hw_completing) \<and>
   fdca_vector_mem_execute (Some vpu_device) (Some zero_elements_op)
       (hw_completing\<lparr>status_reads := [(0, False), (0, True)]\<rparr>) =
     Some (Inl ETIMEDOUT, Some (zero_elements_op\<lparr>dma_addr := 0x10000000\<rparr>),
           \<lparr>alloc_results = [], status_reads = [],
            trace = [DMA_ALLOC 0, IOWRITE64 0x100 0x80000000, IOWRITE32 0x108 0,
                     IOWRITE32 0x10C 4, IOWRITE64 0x110 0x10000000, IOWRITE32 0x118 1,
                     IOWRITE32 0x11C 1, DMA_FREE 0]\<rparr>)"
proof -
  have n: "num_elements zero_elements_op = 0"
    and t: "op_type zero_elements_op = FDCA_VMEM_UNIT_STRIDE"
    by (simp_all add: zero_elements_op_def)
  have p: "vpu_present vpu_device" by (simp add: vpu_device_def)
  have ar: "alloc_results (hw_completing\<lparr>status_reads := [(0, False), (0, True)]\<rparr>) =
              Some (0xFFFF000000001000, 0x10000000) # []"
    by (simp add: hw_completing_def)
  note inst1 = execute_zero_elements [OF n, where hw = hw_completing]
  note inst2 = execute_zero_elements [OF n, where dev = vpu_device
      and hw = "hw_completing\<lparr>status_reads := [(0, False), (0, True)]\<rparr>"
      and cpu = "0xFFFF000000001000" and d = "0x10000000" and rs = "[]"]
  from inst1 have a: "fdca_vector_mem_execute None (Some zero_elements_op) hw_completing =
     Some (Inl EINVAL, Some zero_elements_op, hw_completing)"
    by simp
  from inst2 p t ar have
    "fdca_vector_mem_execute (Some vpu_device) (Some zero_elements_op)
       (hw_completing\<lparr>status_reads := [(0, False), (0, True)]\<rparr>) =
     Some (Inl ETIMEDOUT, Some (zero_elements_op\<lparr>dma_addr := 0x10000000\<rparr>),
           \<lparr>alloc_results = [], status_reads = [],
            trace = [DMA_ALLOC 0, IOWRITE64 0x100 0x80000000, IOWRITE32 0x108 0,
                     IOWRITE32 0x10C 4, IOWRITE64 0x110 0x10000000, IOWRITE32 0x118 1,
                     IOWRITE32 0x11C 1, DMA_FREE 0]\<rparr>)"
    by (simp add: hw_completing_def zero_elements_op_def ctrl_reg_of_def)
  with n a show ?thesis by simp
qed

theorem execute_zero_elements_allocates:
  "num_elements zero_elements_op = 0 \<and>
   fdca_vector_mem_execute (Some vpu_device) (Some zero_elements_op) hw_no_memory =
     Some (Inl ENOMEM, Some zero_elements_op,
           \<lparr>alloc_results = [], status_reads = [], trace = [DMA_ALLOC 0]\<rparr>) \<and>
   fdca_vector_mem_execute (Some vpu_device) (Some zero_elements_op) hw_completing =
     Some (Inr (), Some (zero_elements_op\<lparr>dma_addr := 0x10000000\<rparr>),
           \<lparr>alloc_results = [], status_reads = [],
            trace = [DMA_ALLOC 0, IOWRITE64 0x100 0x80000000, IOWRITE32 0x108 0,
                     IOWRITE32 0x10C 4, IOWRITE64 0x110 0x10000000, IOWRITE32 0x118 1,
                     IOWRITE32 0x11C 1, DMA_FREE 0]\<rparr>) \<and>
   dma_allocs [DMA_ALLOC 0, IOWRITE64 0x100 0x80000000, IOWRITE32 0x108 0,
               IOWRITE32 0x10C 4, IOWRITE64 0x110 0x10000000, IOWRITE32 0x118 1,
               IOWRITE32 0x11C 1, DMA_FREE 0] = [0]"
  by (simp add: zero_elements_op_def vpu_device_def hw_no_memory_def hw_completing_def
      fdca_vector_mem_execute_def fdca_vector_mem_prepare_dma_def dma_alloc_coherent_def
      fdca_vector_mem_unit_stride_def iowrite32_def iowrite64_def ctrl_reg_of_def
      fdca_vector_mem_wait_completion_def fdca_vector_mem_cleanup_dma_def
      dma_free_coherent_def Let_def)

end
